theory Spec2Isabelle
  imports Complex_Main "HOL-Library.Multiset" "HOL-Library.Log_Nat"
begin

section \<open>Data model (shared/schema.ts)\<close>

text \<open>
  Every table of \<^verbatim>\<open>shared/schema.ts\<close> is a list of rows, in insertion order. A column
  without \<^verbatim>\<open>notNull()\<close> is an \<open>option\<close> (\<open>None\<close> is SQL NULL). The two timestamp
  columns carry \<^verbatim>\<open>defaultNow()\<close> and no insert path of the server supplies them, so they
  are always populated; they are natural numbers (a clock reading). Identifiers are the
  \<^verbatim>\<open>varchar\<close> strings of the schema. Field names carry a prefix per table, since several
  tables share the column names \<^verbatim>\<open>id\<close>, \<^verbatim>\<open>userId\<close>, \<^verbatim>\<open>createdAt\<close>.
\<close>

record user =
  u_id :: string
  u_email :: "string option"
  u_firstName :: "string option"
  u_lastName :: "string option"
  u_profileImageUrl :: "string option"
  u_role :: "string option"
  u_createdAt :: nat
  u_updatedAt :: nat

record recipe =
  r_id :: string
  r_name :: string
  r_description :: "string option"
  r_ingredients :: "string list"
  r_instructions :: "string list"
  r_cookingTime :: "int option"
  r_difficulty :: "string option"
  r_cuisine :: "string option"
  r_imageUrl :: "string option"
  r_userId :: "string option"
  r_isGenerated :: "bool option"
  r_isFeatured :: "bool option"
  r_isApproved :: "bool option"
  r_servings :: "int option"
  r_createdAt :: nat
  r_updatedAt :: nat

record review =
  rv_id :: string
  rv_recipeId :: string
  rv_userId :: string
  rv_rating :: int
  rv_comment :: "string option"
  rv_isApproved :: "bool option"
  rv_createdAt :: nat
  rv_updatedAt :: nat

record savedRecipe =
  s_id :: string
  s_userId :: string
  s_recipeId :: string
  s_createdAt :: nat

text \<open>The database: the four tables the operations below read and write.\<close>

record database =
  users :: "user list"
  recipes :: "recipe list"
  reviews :: "review list"
  savedRecipes :: "savedRecipe list"

text \<open>
  The extended types of the schema. \<^verbatim>\<open>{ ...recipe, user }\<close> is kept as a pair of the row
  and the joined user (\<open>None\<close> when the left join finds none).
\<close>

record recipeWithUser =
  ru_recipe :: recipe
  ru_user :: "user option"

record reviewWithUser =
  rw_review :: review
  rw_user :: "user option"

record recipeWithReviews =
  rr_recipe :: recipe
  rr_reviews :: "reviewWithUser list"
  averageRating :: rat
  reviewCount :: nat

text \<open>What the database driver throws; the handlers only log it and answer 500.\<close>

datatype dbError = UniqueViolation | ForeignKeyViolation | InvalidInteger
  | NumericValueOutOfRange | InvalidText | NegativeOffset

section \<open>Requests and responses (the router)\<close>

text \<open>
  A JSON value of a request body. JSON numbers are rationals: every finite double is one,
  and the validation below only compares them with 1 and 5.
\<close>

datatype json = JNull | JBool bool | JNum rat | JStr string
  | JArr "json list" | JObj "(string \<times> json) list"

text \<open>
  The request as the handlers read it: \<open>req_sub\<close> is \<^verbatim>\<open>req.user?.claims?.sub\<close>
  (\<open>None\<close> when any link of the chain is undefined), \<open>req_param\<close> the path parameter,
  \<open>req_body\<close> the parsed JSON object, a map from keys to values.
\<close>

record request =
  req_sub :: "string option"
  req_param :: string
  req_body :: "string \<rightharpoonup> json"

text \<open>One issue of a \<^verbatim>\<open>ZodError\<close>: the path of the field and the issue code.\<close>

datatype zodIssue = Issue (path: string) (code: string)

datatype payload =
    Message string
  | Invalid string "zodIssue list"
  | RecipeJson recipeWithReviews
  | RecipesJson "recipe list"
  | ReviewJson review

datatype response = Res (status: nat) (json: payload)

text \<open>A middleware either answers the request itself or calls \<^verbatim>\<open>next()\<close>.\<close>

datatype middleware = Reject response | Next

text \<open>JavaScript truthiness of an optional string: undefined and the empty string are falsy.\<close>

definition truthy :: "string option \<Rightarrow> bool" where
  "truthy s = (case s of None \<Rightarrow> False | Some v \<Rightarrow> v \<noteq> [])"

section \<open>User lookup and the guards\<close>

text \<open>\<^verbatim>\<open>const [user] = await db.select().from(users).where(eq(users.id, id))\<close>: the first row.\<close>

definition getUser :: "database \<Rightarrow> string \<Rightarrow> user option" where
  "getUser db i = find (\<lambda>u. u_id u = i) (users db)"

text \<open>The \<^verbatim>\<open>isAdmin\<close> middleware of the routes file.\<close>

definition isAdmin :: "database \<Rightarrow> request \<Rightarrow> middleware" where
  "isAdmin db req =
     (if \<not> truthy (req_sub req) then Reject (Res 401 (Message ''Unauthorized''))
      else (case getUser db (the (req_sub req)) of
              None \<Rightarrow> Reject (Res 403 (Message ''Admin access required''))
            | Some u \<Rightarrow>
                if u_role u \<noteq> Some ''admin''
                then Reject (Res 403 (Message ''Admin access required''))
                else Next))"

text \<open>
  Modelled from the spec: \<^verbatim>\<open>isAuthenticated\<close> is imported from \<^verbatim>\<open>./replitAuth\<close>, which is not
  among the sources. Section 4.3: "Authentication guard: requires a resolved caller
  identity; absence -> reject with an unauthorized signal."
\<close>

definition isAuthenticated :: "request \<Rightarrow> middleware" where
  "isAuthenticated req =
     (if truthy (req_sub req) then Next else Reject (Res 401 (Message ''Unauthorized'')))"

text \<open>
  Every admin route is registered as \<^verbatim>\<open>app.METHOD(path, isAuthenticated, isAdmin, handler)\<close>:
  the guards run in this order and the handler runs (\<open>Inr\<close>) only after both called
  \<^verbatim>\<open>next()\<close>.
\<close>

definition adminEndpoint :: "database \<Rightarrow> request \<Rightarrow> 'a \<Rightarrow> response + 'a" where
  "adminEndpoint db req handler =
     (case isAuthenticated req of
        Reject r \<Rightarrow> Inl r
      | Next \<Rightarrow> (case isAdmin db req of Reject r \<Rightarrow> Inl r | Next \<Rightarrow> Inr handler))"

text \<open>The stored role of the caller, when the caller has a row in \<^verbatim>\<open>users\<close>.\<close>

definition storedRole :: "database \<Rightarrow> request \<Rightarrow> string option" where
  "storedRole db req =
     (case req_sub req of
        None \<Rightarrow> None
      | Some s \<Rightarrow> (case getUser db s of None \<Rightarrow> None | Some u \<Rightarrow> u_role u))"

section \<open>The query builder (drizzle-orm) over in-memory tables\<close>

text \<open>
  A condition of a \<^verbatim>\<open>WHERE\<close> clause is three-valued, as in SQL: \<open>None\<close> is NULL, and a row
  is selected only where the condition is \<open>Some True\<close>. A comparison with a NULL column is
  NULL; \<^verbatim>\<open>and\<close> and \<^verbatim>\<open>or\<close> follow Kleene's tables.
\<close>

type_synonym 'r sqlCond = "'r \<Rightarrow> bool option"

definition eq_sql :: "('r \<Rightarrow> 'a option) \<Rightarrow> 'a \<Rightarrow> 'r sqlCond" where
  "eq_sql col v r = map_option (\<lambda>x. x = v) (col r)"

definition and_sql :: "'r sqlCond \<Rightarrow> 'r sqlCond \<Rightarrow> 'r sqlCond" where
  "and_sql a b r =
     (if a r = Some False \<or> b r = Some False then Some False
      else if a r = Some True \<and> b r = Some True then Some True
      else None)"

definition or_sql :: "'r sqlCond \<Rightarrow> 'r sqlCond \<Rightarrow> 'r sqlCond" where
  "or_sql a b r =
     (if a r = Some True \<or> b r = Some True then Some True
      else if a r = Some False \<and> b r = Some False then Some False
      else None)"

text \<open>ASCII lower-casing, the case folding of \<^verbatim>\<open>ILIKE\<close> on the letters A to Z.\<close>

definition lower :: "char \<Rightarrow> char" where
  "lower c =
     (let n = (of_char c :: nat) in if 65 \<le> n \<and> n \<le> 90 then char_of (n + 32) else c)"

text \<open>
  \<^verbatim>\<open>LIKE\<close> matching of a pattern (first argument) against a text, letters compared without
  case: \<^verbatim>\<open>%\<close> matches any run of characters, \<^verbatim>\<open>_\<close> any one character, a backslash
  makes the next pattern character literal. A pattern that ends in a lone backslash is an
  error in PostgreSQL; the patterns built below end in \<^verbatim>\<open>%\<close>, so that case (answered
  \<open>False\<close> here) is never reached through them.
\<close>

fun likeMatch :: "string \<Rightarrow> string \<Rightarrow> bool" where
  "likeMatch [] s = (s = [])"
| "likeMatch (p # ps) s =
     (if p = CHR ''%'' then
        likeMatch ps s \<or> (case s of [] \<Rightarrow> False | c # t \<Rightarrow> likeMatch (p # ps) t)
      else if p = CHR ''_'' then
        (case s of [] \<Rightarrow> False | c # t \<Rightarrow> likeMatch ps t)
      else if p = CHR 0x5C then
        (case ps of
           [] \<Rightarrow> False
         | q # qs \<Rightarrow> (case s of [] \<Rightarrow> False | c # t \<Rightarrow> lower c = lower q \<and> likeMatch qs t))
      else (case s of [] \<Rightarrow> False | c # t \<Rightarrow> lower c = lower p \<and> likeMatch ps t))"

definition ilike :: "('r \<Rightarrow> string option) \<Rightarrow> string \<Rightarrow> 'r sqlCond" where
  "ilike col pat r = map_option (likeMatch pat) (col r)"

text \<open>
  The select builder of drizzle-orm. The builder object holds one configuration with at
  most one condition, one ordering, one limit and one offset; each method assigns its field
  and returns the same builder (\<^verbatim>\<open>where(c)\<close> is \<^verbatim>\<open>this.config.where = c; return this\<close>).
  A second \<^verbatim>\<open>.where\<close> therefore replaces the condition of the first; conditions are
  combined only by \<^verbatim>\<open>and(...)\<close> and \<^verbatim>\<open>or(...)\<close>. The library is a dependency of the server
  and not part of its sources.
\<close>

record 'r selectQuery =
  q_from :: "'r list"
  q_where :: "'r sqlCond option"
  q_orderByDesc :: "('r \<Rightarrow> nat) option"
  q_limit :: "int option"
  q_offset :: "int option"

definition from_q :: "'r list \<Rightarrow> 'r selectQuery" where
  "from_q rows = \<lparr>q_from = rows, q_where = None, q_orderByDesc = None,
     q_limit = None, q_offset = None\<rparr>"

definition where_q :: "'r selectQuery \<Rightarrow> 'r sqlCond \<Rightarrow> 'r selectQuery" where
  "where_q q c = q\<lparr>q_where := Some c\<rparr>"

definition orderByDesc :: "'r selectQuery \<Rightarrow> ('r \<Rightarrow> nat) \<Rightarrow> 'r selectQuery" where
  "orderByDesc q k = q\<lparr>q_orderByDesc := Some k\<rparr>"

definition limit_q :: "'r selectQuery \<Rightarrow> int \<Rightarrow> 'r selectQuery" where
  "limit_q q n = q\<lparr>q_limit := Some n\<rparr>"

definition offset_q :: "'r selectQuery \<Rightarrow> int \<Rightarrow> 'r selectQuery" where
  "offset_q q n = q\<lparr>q_offset := Some n\<rparr>"

text \<open>
  The rows of a query before limit and offset: the rows of the table that satisfy the
  condition, ordered by the key, greatest first (rows with equal keys keep the order of
  the table).
\<close>

definition rowsOf :: "'r selectQuery \<Rightarrow> 'r list" where
  "rowsOf q =
     (let sel = filter (\<lambda>r. case q_where q of None \<Rightarrow> True | Some c \<Rightarrow> c r = Some True)
                  (q_from q)
      in case q_orderByDesc q of
           None \<Rightarrow> sel
         | Some k \<Rightarrow> sort_key (\<lambda>r. - int (k r)) sel)"

text \<open>
  Running the query. drizzle-orm writes the limit into the statement only when it is not
  negative and the offset only when it is not zero; PostgreSQL refuses a negative
  \<^verbatim>\<open>OFFSET\<close>.
\<close>

definition execute :: "'r selectQuery \<Rightarrow> dbError + 'r list" where
  "execute q =
     (if (case q_offset q of None \<Rightarrow> False | Some n \<Rightarrow> n < 0) then Inl NegativeOffset
      else Inr (let rows = (case q_offset q of
                              None \<Rightarrow> rowsOf q
                            | Some n \<Rightarrow> drop (nat n) (rowsOf q))
                in case q_limit q of
                     None \<Rightarrow> rows
                   | Some n \<Rightarrow> if n < 0 then rows else take (nat n) rows))"

text \<open>
  \<^verbatim>\<open>.from(recipes).leftJoin(users, eq(recipes.userId, users.id))\<close>: \<^verbatim>\<open>users.id\<close> is the
  primary key, so each recipe gives one joined row, with its user or with null.
\<close>

definition recipesJoinUsers :: "database \<Rightarrow> (recipe \<times> user option) list" where
  "recipesJoinUsers db =
     map (\<lambda>r. (r, case r_userId r of None \<Rightarrow> None | Some u \<Rightarrow> getUser db u)) (recipes db)"

definition reviewsJoinUsers :: "database \<Rightarrow> (review \<times> user option) list" where
  "reviewsJoinUsers db = map (\<lambda>v. (v, getUser db (rv_userId v))) (reviews db)"

section \<open>Recipe reads (server/storage.ts)\<close>

text \<open>
  \<^verbatim>\<open>avg(reviews.rating)\<close> is computed by PostgreSQL as the \<^verbatim>\<open>numeric\<close> quotient of the
  sum and the count. A \<^verbatim>\<open>numeric\<close> is held in digits of base 10000; the scale of a
  quotient (the number of decimals it is rounded to) is chosen from the weight and the
  value of the first digit of each operand so that the result has at least 16 significant
  digits (\<^verbatim>\<open>select_div_scale\<close>).
\<close>

definition nbaseWeight :: "nat \<Rightarrow> nat" where
  "nbaseWeight n = floorlog 10000 n - 1"

definition firstDigit :: "nat \<Rightarrow> nat" where
  "firstDigit n = n div 10000 ^ nbaseWeight n"

definition select_div_scale :: "nat \<Rightarrow> nat \<Rightarrow> nat" where
  "select_div_scale a b =
     (let qweight = int (nbaseWeight a) - int (nbaseWeight b)
                    - (if firstDigit a \<le> firstDigit b then 1 else 0)
      in nat (min 1000 (max 0 (16 - qweight * 4))))"

text \<open>The quotient, rounded half away from zero at the selected scale.\<close>

definition numeric_div :: "int \<Rightarrow> nat \<Rightarrow> rat" where
  "numeric_div s c =
     (let rscale = select_div_scale (nat \<bar>s\<bar>) c
      in of_int (sgn s * round (of_int (\<bar>s\<bar> * 10 ^ rscale) / (of_nat c :: rat))) / 10 ^ rscale)"

text \<open>
  The aggregate: NULL over no rows. The driver hands the \<^verbatim>\<open>numeric\<close> over as its decimal
  string, which is kept here as the rational it denotes.
\<close>

definition avg :: "int list \<Rightarrow> rat option" where
  "avg xs = (if xs = [] then None else Some (numeric_div (sum_list xs) (length xs)))"

text \<open>
  \<^verbatim>\<open>Number(avgRating)\<close> reads the decimal string as the nearest double, ties to the even
  significand. A double is kept as the rational it denotes. \<open>exponentOf a\<close> is the binary
  exponent of a positive \<open>a\<close>; below \<open>2 powi (- 1022)\<close> the doubles are evenly spaced. The
  overflow to \<^verbatim>\<open>Infinity\<close> is not represented: the mean of 32-bit ratings stays far
  below it.
\<close>

definition roundHalfEven :: "rat \<Rightarrow> int" where
  "roundHalfEven y =
     (let f = \<lfloor>y\<rfloor>; d = y - of_int f
      in if d < 1 / 2 then f else if 1 / 2 < d then f + 1 else if even f then f else f + 1)"

definition exponentOf :: "rat \<Rightarrow> int" where
  "exponentOf a =
     (let d = bitlen (fst (quotient_of a)) - bitlen (snd (quotient_of a))
      in if 2 powi d \<le> a then d else d - 1)"

definition nearestDouble :: "rat \<Rightarrow> rat" where
  "nearestDouble a =
     (let e = max (exponentOf a) (- 1022); ulp = 2 powi (e - 52)
      in of_int (roundHalfEven (a / ulp)) * ulp)"

definition Number :: "rat \<Rightarrow> rat" where
  "Number x = (if x = 0 then 0 else sgn x * nearestDouble \<bar>x\<bar>)"

text \<open>
  \<^verbatim>\<open>getRecipe\<close>. The average is \<^verbatim>\<open>avgRating ? Number(avgRating) : 0\<close>; the string of a
  \<^verbatim>\<open>numeric\<close> is never empty, so only NULL is falsy.
\<close>

definition getRecipe :: "database \<Rightarrow> string \<Rightarrow> recipeWithReviews option" where
  "getRecipe db i =
     (case rowsOf (where_q (from_q (recipes db)) (eq_sql (Some \<circ> r_id) i)) of
        [] \<Rightarrow> None
      | recipe # _ \<Rightarrow>
          (let recipeReviews =
                 rowsOf (orderByDesc
                   (where_q (from_q (reviewsJoinUsers db))
                      (and_sql (eq_sql (Some \<circ> rv_recipeId \<circ> fst) i) (eq_sql (rv_isApproved \<circ> fst) True)))
                   (rv_createdAt \<circ> fst));
               avgRating =
                 avg (map rv_rating (rowsOf
                   (where_q (from_q (reviews db))
                      (and_sql (eq_sql (Some \<circ> rv_recipeId) i) (eq_sql rv_isApproved True)))));
               count = length (rowsOf
                   (where_q (from_q (reviews db))
                      (and_sql (eq_sql (Some \<circ> rv_recipeId) i) (eq_sql rv_isApproved True))))
           in Some \<lparr>rr_recipe = recipe,
                    rr_reviews = map (\<lambda>(review, user). \<lparr>rw_review = review, rw_user = user\<rparr>)
                                   recipeReviews,
                    averageRating = (case avgRating of None \<Rightarrow> 0 | Some a \<Rightarrow> Number a),
                    reviewCount = count\<rparr>))"

text \<open>The optional filters of \<^verbatim>\<open>getRecipes\<close>; \<open>None\<close> is an absent (undefined) filter.\<close>

record filters =
  f_userId :: "string option"
  f_cuisine :: "string option"
  f_difficulty :: "string option"
  f_search :: "string option"

text \<open>
  \<^verbatim>\<open>getRecipes(limit, offset, filters)\<close>. Each \<^verbatim>\<open>if (filters.x)\<close> tests JavaScript
  truthiness and then calls \<^verbatim>\<open>query = query.where(...)\<close> on the builder that already holds
  the condition \<^verbatim>\<open>eq(recipes.isApproved, true)\<close>.
\<close>

definition getRecipes :: "database \<Rightarrow> int \<Rightarrow> int \<Rightarrow> filters \<Rightarrow> dbError + recipeWithUser list" where
  "getRecipes db limit offset fs =
     (let query = where_q (from_q (recipesJoinUsers db)) (eq_sql (r_isApproved \<circ> fst) True);
          query = (if truthy (f_userId fs)
                   then where_q query (eq_sql (r_userId \<circ> fst) (the (f_userId fs))) else query);
          query = (if truthy (f_cuisine fs)
                   then where_q query (eq_sql (r_cuisine \<circ> fst) (the (f_cuisine fs))) else query);
          query = (if truthy (f_difficulty fs)
                   then where_q query (eq_sql (r_difficulty \<circ> fst) (the (f_difficulty fs))) else query);
          query = (if truthy (f_search fs)
                   then where_q query
                          (or_sql (ilike (Some \<circ> r_name \<circ> fst) (''%'' @ the (f_search fs) @ ''%''))
                               (ilike (r_description \<circ> fst) (''%'' @ the (f_search fs) @ ''%'')))
                   else query)
      in case execute (offset_q (limit_q (orderByDesc query (r_createdAt \<circ> fst)) limit) offset) of
           Inl e \<Rightarrow> Inl e
         | Inr results \<Rightarrow>
             Inr (map (\<lambda>(recipe, user). \<lparr>ru_recipe = recipe, ru_user = user\<rparr>) results))"

text \<open>\<^verbatim>\<open>getFeaturedRecipes\<close>: one condition, built with \<^verbatim>\<open>and(...)\<close>.\<close>

definition getFeaturedRecipes :: "database \<Rightarrow> dbError + recipeWithUser list" where
  "getFeaturedRecipes db =
     (case execute (limit_q (orderByDesc
             (where_q (from_q (recipesJoinUsers db))
                (and_sql (eq_sql (r_isFeatured \<circ> fst) True) (eq_sql (r_isApproved \<circ> fst) True)))
             (r_createdAt \<circ> fst)) 10) of
        Inl e \<Rightarrow> Inl e
      | Inr results \<Rightarrow>
          Inr (map (\<lambda>(recipe, user). \<lparr>ru_recipe = recipe, ru_user = user\<rparr>) results))"

text \<open>\<^verbatim>\<open>GET /api/recipes/:id\<close>, registered without a guard.\<close>

definition getRecipeRoute :: "database \<Rightarrow> request \<Rightarrow> response" where
  "getRecipeRoute db req =
     (case getRecipe db (req_param req) of
        None \<Rightarrow> Res 404 (Message ''Recipe not found'')
      | Some recipe \<Rightarrow> Res 200 (RecipeJson recipe))"

section \<open>Writes (server/storage.ts)\<close>

text \<open>
  An insert takes the value \<^verbatim>\<open>gen_random_uuid()\<close> produces for the \<^verbatim>\<open>id\<close> column and the
  reading of the clock for \<^verbatim>\<open>defaultNow()\<close>; both come from the environment. The database
  enforces what the schema declares: the primary key \<^verbatim>\<open>id\<close> of each table, the foreign keys
  (\<^verbatim>\<open>references(...)\<close>), and the \<^verbatim>\<open>integer\<close> columns, which are 32 bits wide and refuse
  a JavaScript number with a fraction or out of that range. No table declares any other
  unique constraint. A string that holds the character U+0000 cannot be sent as text: a
  statement that binds one fails, whether or not a row matches.
\<close>

definition isInteger :: "rat \<Rightarrow> bool" where
  "isInteger q = (of_int \<lfloor>q\<rfloor> = q)"

definition integerError :: "rat option \<Rightarrow> dbError option" where
  "integerError q =
     (case q of
        None \<Rightarrow> None
      | Some x \<Rightarrow>
          if \<not> isInteger x then Some InvalidInteger
          else if x < - 2147483648 \<or> 2147483647 < x then Some NumericValueOutOfRange
          else None)"

definition integerColumn :: "rat option \<Rightarrow> bool" where
  "integerColumn q = (integerError q = None)"

definition validText :: "string \<Rightarrow> bool" where
  "validText x = (CHR 0x00 \<notin> set x)"

definition validTextOpt :: "string option \<Rightarrow> bool" where
  "validTextOpt x = (case x of None \<Rightarrow> True | Some y \<Rightarrow> validText y)"

text \<open>
  \<^verbatim>\<open>InsertRecipe\<close>. For the three flags \<open>None\<close> is an absent key, which takes the column
  default; no caller of \<^verbatim>\<open>createRecipe\<close> passes them.
\<close>

record insertRecipe =
  ir_name :: string
  ir_description :: "string option"
  ir_ingredients :: "string list"
  ir_instructions :: "string list"
  ir_cookingTime :: "rat option"
  ir_difficulty :: "string option"
  ir_cuisine :: "string option"
  ir_imageUrl :: "string option"
  ir_userId :: "string option"
  ir_isGenerated :: "bool option"
  ir_isFeatured :: "bool option"
  ir_isApproved :: "bool option"
  ir_servings :: "rat option"

definition withDefault :: "bool \<Rightarrow> bool option \<Rightarrow> bool option" where
  "withDefault d v = (case v of None \<Rightarrow> Some d | Some b \<Rightarrow> Some b)"

definition createRecipe ::
  "database \<Rightarrow> string \<Rightarrow> nat \<Rightarrow> insertRecipe \<Rightarrow> dbError + (recipe \<times> database)" where
  "createRecipe db newId now ins =
     (if \<not> (validText (ir_name ins) \<and> validTextOpt (ir_description ins)
             \<and> list_all validText (ir_ingredients ins)
             \<and> list_all validText (ir_instructions ins)
             \<and> validTextOpt (ir_difficulty ins) \<and> validTextOpt (ir_cuisine ins)
             \<and> validTextOpt (ir_imageUrl ins) \<and> validTextOpt (ir_userId ins))
      then Inl InvalidText
      else if integerError (ir_cookingTime ins) \<noteq> None
      then Inl (the (integerError (ir_cookingTime ins)))
      else if integerError (ir_servings ins) \<noteq> None
      then Inl (the (integerError (ir_servings ins)))
      else if newId \<in> set (map r_id (recipes db)) then Inl UniqueViolation
      else if (case ir_userId ins of None \<Rightarrow> False | Some u \<Rightarrow> getUser db u = None)
      then Inl ForeignKeyViolation
      else (let newRecipe =
                  \<lparr>r_id = newId, r_name = ir_name ins, r_description = ir_description ins,
                   r_ingredients = ir_ingredients ins, r_instructions = ir_instructions ins,
                   r_cookingTime = map_option floor (ir_cookingTime ins),
                   r_difficulty = ir_difficulty ins, r_cuisine = ir_cuisine ins,
                   r_imageUrl = ir_imageUrl ins, r_userId = ir_userId ins,
                   r_isGenerated = withDefault True (ir_isGenerated ins),
                   r_isFeatured = withDefault False (ir_isFeatured ins),
                   r_isApproved = withDefault True (ir_isApproved ins),
                   r_servings = map_option floor (ir_servings ins),
                   r_createdAt = now, r_updatedAt = now\<rparr>
            in Inr (newRecipe, db\<lparr>recipes := recipes db @ [newRecipe]\<rparr>)))"

text \<open>
  \<^verbatim>\<open>deleteRecipe\<close>: a hard delete; the reviews and saved rows of a deleted recipe go with it
  (\<^verbatim>\<open>onDelete: "cascade"\<close>). The result is \<^verbatim>\<open>rowCount > 0\<close>.
\<close>

definition deleteRecipe :: "database \<Rightarrow> string \<Rightarrow> dbError + (bool \<times> database)" where
  "deleteRecipe db i =
     (if \<not> validText i then Inl InvalidText
      else if filter (\<lambda>r. r_id r = i) (recipes db) = [] then Inr (False, db)
      else Inr (True, db\<lparr>recipes := filter (\<lambda>r. r_id r \<noteq> i) (recipes db),
                          reviews := filter (\<lambda>v. rv_recipeId v \<noteq> i) (reviews db),
                          savedRecipes := filter (\<lambda>x. s_recipeId x \<noteq> i) (savedRecipes db)\<rparr>))"

text \<open>
  \<^verbatim>\<open>InsertReview\<close>, the output of \<^verbatim>\<open>insertReviewSchema\<close>. \<^verbatim>\<open>comment\<close> and \<^verbatim>\<open>isApproved\<close>
  are optional and nullable: \<open>None\<close> is an absent key, \<open>Some None\<close> is null.
\<close>

record insertReview =
  iv_recipeId :: string
  iv_userId :: string
  iv_rating :: rat
  iv_comment :: "string option option"
  iv_isApproved :: "bool option option"

definition createReview ::
  "database \<Rightarrow> string \<Rightarrow> nat \<Rightarrow> insertReview \<Rightarrow> dbError + (review \<times> database)" where
  "createReview db newId now data =
     (if \<not> (validText (iv_recipeId data) \<and> validText (iv_userId data)
             \<and> (case iv_comment data of Some (Some c) \<Rightarrow> validText c | _ \<Rightarrow> True))
      then Inl InvalidText
      else if integerError (Some (iv_rating data)) \<noteq> None
      then Inl (the (integerError (Some (iv_rating data))))
      else if newId \<in> set (map rv_id (reviews db)) then Inl UniqueViolation
      else if filter (\<lambda>r. r_id r = iv_recipeId data) (recipes db) = []
              \<or> getUser db (iv_userId data) = None
      then Inl ForeignKeyViolation
      else (let newReview =
                  \<lparr>rv_id = newId, rv_recipeId = iv_recipeId data, rv_userId = iv_userId data,
                   rv_rating = \<lfloor>iv_rating data\<rfloor>,
                   rv_comment = (case iv_comment data of None \<Rightarrow> None | Some c \<Rightarrow> c),
                   rv_isApproved = (case iv_isApproved data of None \<Rightarrow> Some True | Some b \<Rightarrow> b),
                   rv_createdAt = now, rv_updatedAt = now\<rparr>
            in Inr (newReview, db\<lparr>reviews := reviews db @ [newReview]\<rparr>)))"

text \<open>\<^verbatim>\<open>Partial<InsertReview>\<close>: every key may be absent (\<open>None\<close>).\<close>

record reviewUpdates =
  up_recipeId :: "string option"
  up_userId :: "string option"
  up_rating :: "rat option"
  up_comment :: "string option option"
  up_isApproved :: "bool option option"

text \<open>\<^verbatim>\<open>.set({ ...updates, updatedAt: new Date() })\<close> on one row.\<close>

definition setReview :: "reviewUpdates \<Rightarrow> nat \<Rightarrow> review \<Rightarrow> review" where
  "setReview up now v =
     v\<lparr>rv_recipeId := (case up_recipeId up of None \<Rightarrow> rv_recipeId v | Some x \<Rightarrow> x),
       rv_userId := (case up_userId up of None \<Rightarrow> rv_userId v | Some x \<Rightarrow> x),
       rv_rating := (case up_rating up of None \<Rightarrow> rv_rating v | Some x \<Rightarrow> \<lfloor>x\<rfloor>),
       rv_comment := (case up_comment up of None \<Rightarrow> rv_comment v | Some x \<Rightarrow> x),
       rv_isApproved := (case up_isApproved up of None \<Rightarrow> rv_isApproved v | Some x \<Rightarrow> x),
       rv_updatedAt := now\<rparr>"

text \<open>The strings among the updates can be bound.\<close>

definition updatesText :: "reviewUpdates \<Rightarrow> bool" where
  "updatesText up =
     (validTextOpt (up_recipeId up) \<and> validTextOpt (up_userId up)
      \<and> (case up_comment up of Some (Some c) \<Rightarrow> validText c | _ \<Rightarrow> True))"

text \<open>
  \<^verbatim>\<open>updateReview(id, userId, updates)\<close>: the update is scoped to the rows with this id and
  this user; the result is the first updated row, or undefined. Text that cannot be bound
  and a rating that is no 32-bit integer are refused when the statement is bound, whether
  or not a row matches; the foreign keys are checked on the rows that change.
\<close>

definition updateReview ::
  "database \<Rightarrow> nat \<Rightarrow> string \<Rightarrow> string \<Rightarrow> reviewUpdates \<Rightarrow> dbError + (review option \<times> database)" where
  "updateReview db now i userId up =
     (let hit = (\<lambda>v. rv_id v = i \<and> rv_userId v = userId);
          returned = map (setReview up now) (filter hit (reviews db))
      in if \<not> (validText i \<and> validText userId \<and> updatesText up) then Inl InvalidText
         else if integerError (up_rating up) \<noteq> None
         then Inl (the (integerError (up_rating up)))
         else if returned \<noteq> []
                 \<and> ((case up_recipeId up of
                        None \<Rightarrow> False
                      | Some r \<Rightarrow> filter (\<lambda>x. r_id x = r) (recipes db) = [])
                    \<or> (case up_userId up of None \<Rightarrow> False | Some u \<Rightarrow> getUser db u = None))
         then Inl ForeignKeyViolation
         else Inr (case returned of [] \<Rightarrow> None | review # _ \<Rightarrow> Some review,
                   db\<lparr>reviews := map (\<lambda>v. if hit v then setReview up now v else v) (reviews db)\<rparr>))"

definition deleteReview ::
  "database \<Rightarrow> string \<Rightarrow> string \<Rightarrow> dbError + (bool \<times> database)" where
  "deleteReview db i userId =
     (let hit = (\<lambda>v. rv_id v = i \<and> rv_userId v = userId)
      in if \<not> (validText i \<and> validText userId) then Inl InvalidText
         else Inr (filter hit (reviews db) \<noteq> [],
                   db\<lparr>reviews := filter (\<lambda>v. \<not> hit v) (reviews db)\<rparr>))"

record insertSavedRecipe =
  is_userId :: string
  is_recipeId :: string

text \<open>
  \<^verbatim>\<open>saveRecipe\<close>: \<^verbatim>\<open>insert(savedRecipes).values(data).onConflictDoNothing().returning()\<close>.
  A conflict is a violation of a unique constraint of the table, and \<^verbatim>\<open>saved_recipes\<close>
  declares one only: the primary key \<^verbatim>\<open>id\<close>, filled by \<^verbatim>\<open>gen_random_uuid()\<close>. On a
  conflict nothing is inserted and nothing is returned.
\<close>

definition saveRecipe ::
  "database \<Rightarrow> string \<Rightarrow> nat \<Rightarrow> insertSavedRecipe \<Rightarrow> dbError + (savedRecipe option \<times> database)" where
  "saveRecipe db newId now data =
     (if \<not> (validText (is_userId data) \<and> validText (is_recipeId data)) then Inl InvalidText
      else if newId \<in> set (map s_id (savedRecipes db)) then Inr (None, db)
      else if getUser db (is_userId data) = None
              \<or> filter (\<lambda>r. r_id r = is_recipeId data) (recipes db) = []
      then Inl ForeignKeyViolation
      else (let saved = \<lparr>s_id = newId, s_userId = is_userId data,
                          s_recipeId = is_recipeId data, s_createdAt = now\<rparr>
            in Inr (Some saved, db\<lparr>savedRecipes := savedRecipes db @ [saved]\<rparr>)))"

section \<open>Validation (insertReviewSchema)\<close>

text \<open>
  The result of one field: \<open>Inl\<close> the code of the issue, \<open>Inr\<close> the parsed value. The
  argument is the value under the key, \<open>None\<close> when the key is absent.
\<close>

fun zString :: "json option \<Rightarrow> string + string" where
  "zString (Some (JStr x)) = Inr x"
| "zString _ = Inl ''invalid_type''"

text \<open>\<^verbatim>\<open>rating: z.number().min(1).max(5)\<close>, the field the schema extends with.\<close>

fun zRating :: "json option \<Rightarrow> string + rat" where
  "zRating (Some (JNum q)) =
     (if q < 1 then Inl ''too_small'' else if 5 < q then Inl ''too_big'' else Inr q)"
| "zRating _ = Inl ''invalid_type''"

fun zStringNullish :: "json option \<Rightarrow> string + string option option" where
  "zStringNullish None = Inr None"
| "zStringNullish (Some JNull) = Inr (Some None)"
| "zStringNullish (Some (JStr x)) = Inr (Some (Some x))"
| "zStringNullish _ = Inl ''invalid_type''"

fun zBooleanNullish :: "json option \<Rightarrow> string + bool option option" where
  "zBooleanNullish None = Inr None"
| "zBooleanNullish (Some JNull) = Inr (Some None)"
| "zBooleanNullish (Some (JBool b)) = Inr (Some (Some b))"
| "zBooleanNullish _ = Inl ''invalid_type''"

text \<open>\<^verbatim>\<open>.partial()\<close> makes a field optional: an absent key is accepted as undefined.\<close>

definition optional :: "(json option \<Rightarrow> string + 'a) \<Rightarrow> json option \<Rightarrow> string + 'a option" where
  "optional f v =
     (case v of
        None \<Rightarrow> Inr None
      | Some x \<Rightarrow> (case f (Some x) of Inl c \<Rightarrow> Inl c | Inr y \<Rightarrow> Inr (Some y)))"

fun issuesOf :: "string \<Rightarrow> string + 'a \<Rightarrow> zodIssue list" where
  "issuesOf k (Inl c) = [Issue k c]"
| "issuesOf k (Inr v) = []"

text \<open>
  \<^verbatim>\<open>insertReviewSchema.parse\<close>: the keys of the \<^verbatim>\<open>reviews\<close> table without \<^verbatim>\<open>id\<close>,
  \<^verbatim>\<open>createdAt\<close>, \<^verbatim>\<open>updatedAt\<close>, in column order; unknown keys are dropped, and the error
  carries the issues of all fields.
\<close>

definition insertReviewSchema_parse :: "(string \<rightharpoonup> json) \<Rightarrow> zodIssue list + insertReview" where
  "insertReviewSchema_parse obj =
     (let recipeId = zString (obj ''recipeId'');
          userId = zString (obj ''userId'');
          rating = zRating (obj ''rating'');
          comment = zStringNullish (obj ''comment'');
          isApproved = zBooleanNullish (obj ''isApproved'')
      in case (recipeId, userId, rating, comment, isApproved) of
           (Inr a, Inr b, Inr c, Inr d, Inr e) \<Rightarrow>
             Inr \<lparr>iv_recipeId = a, iv_userId = b, iv_rating = c, iv_comment = d,
                  iv_isApproved = e\<rparr>
         | _ \<Rightarrow> Inl (issuesOf ''recipeId'' recipeId @ issuesOf ''userId'' userId
                     @ issuesOf ''rating'' rating @ issuesOf ''comment'' comment
                     @ issuesOf ''isApproved'' isApproved))"

text \<open>\<^verbatim>\<open>insertReviewSchema.partial().parse\<close>.\<close>

definition insertReviewSchema_partial_parse ::
  "(string \<rightharpoonup> json) \<Rightarrow> zodIssue list + reviewUpdates" where
  "insertReviewSchema_partial_parse obj =
     (let recipeId = optional zString (obj ''recipeId'');
          userId = optional zString (obj ''userId'');
          rating = optional zRating (obj ''rating'');
          comment = zStringNullish (obj ''comment'');
          isApproved = zBooleanNullish (obj ''isApproved'')
      in case (recipeId, userId, rating, comment, isApproved) of
           (Inr a, Inr b, Inr c, Inr d, Inr e) \<Rightarrow>
             Inr \<lparr>up_recipeId = a, up_userId = b, up_rating = c, up_comment = d,
                  up_isApproved = e\<rparr>
         | _ \<Rightarrow> Inl (issuesOf ''recipeId'' recipeId @ issuesOf ''userId'' userId
                     @ issuesOf ''rating'' rating @ issuesOf ''comment'' comment
                     @ issuesOf ''isApproved'' isApproved))"

section \<open>Image generation (server/services/openai.ts)\<close>

text \<open>
  What \<^verbatim>\<open>openai.images.generate\<close> does is outside the program: the call throws, or it
  returns a response whose \<^verbatim>\<open>data\<close> array holds entries with an optional \<^verbatim>\<open>url\<close>.
\<close>

datatype imageOutcome = ImageThrows | ImageData "string option list"

datatype jsError = TypeError | ApiError | StorageError dbError

definition imagePrompt :: "string \<Rightarrow> string \<Rightarrow> string" where
  "imagePrompt recipeName description =
     ''A professional, appetizing photo of '' @ recipeName @ ''. '' @ description
     @ ''. Shot in natural lighting with beautiful presentation, high quality food photography style.''"

text \<open>
  The \<^verbatim>\<open>try\<close> block of \<^verbatim>\<open>generateRecipeImage\<close>: \<^verbatim>\<open>response.data[0].url || ""\<close>; reading
  \<^verbatim>\<open>url\<close> of a missing first entry throws.
\<close>

definition generateRecipeImage_try :: "(string \<Rightarrow> imageOutcome) \<Rightarrow> string \<Rightarrow> string \<Rightarrow> jsError + string" where
  "generateRecipeImage_try api recipeName description =
     (case api (imagePrompt recipeName description) of
        ImageThrows \<Rightarrow> Inl ApiError
      | ImageData [] \<Rightarrow> Inl TypeError
      | ImageData (first # _) \<Rightarrow> Inr (case first of None \<Rightarrow> [] | Some url \<Rightarrow> url))"

text \<open>\<^verbatim>\<open>generateRecipeImage\<close>: the \<^verbatim>\<open>catch\<close> logs and returns the empty string.\<close>

definition generateRecipeImage :: "(string \<Rightarrow> imageOutcome) \<Rightarrow> string \<Rightarrow> string \<Rightarrow> jsError + string" where
  "generateRecipeImage api recipeName description =
     (case generateRecipeImage_try api recipeName description of
        Inl error \<Rightarrow> Inr []
      | Inr url \<Rightarrow> Inr url)"

record generatedRecipe =
  g_name :: string
  g_description :: string
  g_ingredients :: "string list"
  g_instructions :: "string list"
  g_cookingTime :: rat
  g_difficulty :: string
  g_cuisine :: string
  g_servings :: rat

text \<open>
  The environment of a request: the image service at its \<open>k\<close>-th call, the \<open>n\<close>-th
  identifier the database generates, and the clock at the \<open>n\<close>-th insert.
\<close>

record env =
  imageApi :: "nat \<Rightarrow> string \<Rightarrow> imageOutcome"
  uuid :: "nat \<Rightarrow> string"
  clock :: "nat \<Rightarrow> nat"

section \<open>Route handlers\<close>

text \<open>\<^verbatim>\<open>{ ...recipe, imageUrl, userId }\<close> and, without an image, \<^verbatim>\<open>{ ...recipe, userId }\<close>.\<close>

definition fromGenerated :: "generatedRecipe \<Rightarrow> string option \<Rightarrow> string \<Rightarrow> insertRecipe" where
  "fromGenerated g imageUrl userId =
     \<lparr>ir_name = g_name g, ir_description = Some (g_description g),
      ir_ingredients = g_ingredients g, ir_instructions = g_instructions g,
      ir_cookingTime = Some (g_cookingTime g), ir_difficulty = Some (g_difficulty g),
      ir_cuisine = Some (g_cuisine g), ir_imageUrl = imageUrl, ir_userId = Some userId,
      ir_isGenerated = None, ir_isFeatured = None, ir_isApproved = None,
      ir_servings = Some (g_servings g)\<rparr>"

text \<open>
  The loop of \<^verbatim>\<open>POST /api/recipes/generate-from-ingredients\<close> over the generated recipes:
  \<open>k\<close> counts the image calls, \<open>n\<close> the inserts attempted, \<open>saved\<close> is \<^verbatim>\<open>savedRecipes\<close>.
  An error of the inner \<^verbatim>\<open>try\<close> leads to the insert without image; an error of that insert
  leaves the loop (\<open>Inl\<close>) with the database as it then is.
\<close>

fun saveGenerated ::
  "env \<Rightarrow> string \<Rightarrow> generatedRecipe list \<Rightarrow> nat \<Rightarrow> nat \<Rightarrow> recipe list \<Rightarrow> database
     \<Rightarrow> (jsError + recipe list) \<times> database" where
  "saveGenerated e userId [] k n saved db = (Inr saved, db)"
| "saveGenerated e userId (g # gs) k n saved db =
     (case (case generateRecipeImage (imageApi e k) (g_name g) (g_description g) of
              Inl error \<Rightarrow> Inl error
            | Inr imageUrl \<Rightarrow>
                (case createRecipe db (uuid e n) (clock e n)
                        (fromGenerated g (Some imageUrl) userId) of
                   Inl error \<Rightarrow> Inl (StorageError error)
                 | Inr r \<Rightarrow> Inr r)) of
        Inr (savedRecipe, db') \<Rightarrow>
          saveGenerated e userId gs (Suc k) (Suc n) (saved @ [savedRecipe]) db'
      | Inl error \<Rightarrow>
          (case createRecipe db (uuid e (Suc n)) (clock e (Suc n))
                  (fromGenerated g None userId) of
             Inl error' \<Rightarrow> (Inl (StorageError error'), db)
           | Inr (savedRecipe, db') \<Rightarrow>
               saveGenerated e userId gs (Suc k) (Suc (Suc n)) (saved @ [savedRecipe]) db'))"

text \<open>
  \<^verbatim>\<open>POST /api/recipes/generate-from-ingredients\<close>. \<open>generated\<close> is what
  \<^verbatim>\<open>generateRecipesFromIngredients\<close> returned or threw.
\<close>

definition generateFromIngredientsRoute ::
  "env \<Rightarrow> database \<Rightarrow> request \<Rightarrow> jsError + generatedRecipe list \<Rightarrow> response \<times> database" where
  "generateFromIngredientsRoute e db req generated =
     (case isAuthenticated req of
        Reject r \<Rightarrow> (r, db)
      | Next \<Rightarrow>
          (case req_body req ''ingredients'' of
             Some (JArr (x # xs)) \<Rightarrow>
               (case generated of
                  Inl error \<Rightarrow> (Res 500 (Message ''Failed to generate recipes''), db)
                | Inr gs \<Rightarrow>
                    (case saveGenerated e (the (req_sub req)) gs 0 0 [] db of
                       (Inl error, db') \<Rightarrow> (Res 500 (Message ''Failed to generate recipes''), db')
                     | (Inr saved, db') \<Rightarrow> (Res 200 (RecipesJson saved), db')))
           | _ \<Rightarrow> (Res 400 (Message ''Ingredients are required''), db)))"

text \<open>\<^verbatim>\<open>DELETE /api/recipes/:id\<close>.\<close>

definition deleteRecipeRoute :: "database \<Rightarrow> request \<Rightarrow> response \<times> database" where
  "deleteRecipeRoute db req =
     (case isAuthenticated req of
        Reject r \<Rightarrow> (r, db)
      | Next \<Rightarrow>
          (case getRecipe db (req_param req) of
             None \<Rightarrow> (Res 404 (Message ''Recipe not found''), db)
           | Some recipe \<Rightarrow>
               (let user = getUser db (the (req_sub req))
                in if r_userId (rr_recipe recipe) \<noteq> Some (the (req_sub req))
                      \<and> (case user of None \<Rightarrow> None | Some u \<Rightarrow> u_role u) \<noteq> Some ''admin''
                   then (Res 403 (Message ''Not authorized to delete this recipe''), db)
                   else (case deleteRecipe db (req_param req) of
                           Inl error \<Rightarrow> (Res 500 (Message ''Failed to delete recipe''), db)
                         | Inr (False, db') \<Rightarrow> (Res 404 (Message ''Recipe not found''), db')
                         | Inr (True, db') \<Rightarrow>
                             (Res 200 (Message ''Recipe deleted successfully''), db')))))"

text \<open>
  \<^verbatim>\<open>POST /api/recipes/:id/reviews\<close>: the body is spread first, then \<^verbatim>\<open>recipeId\<close> and
  \<^verbatim>\<open>userId\<close> are set from the path and the session.
\<close>

definition createReviewRoute :: "database \<Rightarrow> string \<Rightarrow> nat \<Rightarrow> request \<Rightarrow> response \<times> database" where
  "createReviewRoute db newId now req =
     (case isAuthenticated req of
        Reject r \<Rightarrow> (r, db)
      | Next \<Rightarrow>
          (case insertReviewSchema_parse
                  ((req_body req)(''recipeId'' \<mapsto> JStr (req_param req),
                                  ''userId'' \<mapsto> JStr (the (req_sub req)))) of
             Inl issues \<Rightarrow> (Res 400 (Invalid ''Invalid review data'' issues), db)
           | Inr reviewData \<Rightarrow>
               (case createReview db newId now reviewData of
                  Inl error \<Rightarrow> (Res 500 (Message ''Failed to create review''), db)
                | Inr (review, db') \<Rightarrow> (Res 200 (ReviewJson review), db'))))"

text \<open>\<^verbatim>\<open>PUT /api/reviews/:id\<close>.\<close>

definition updateReviewRoute :: "database \<Rightarrow> nat \<Rightarrow> request \<Rightarrow> response \<times> database" where
  "updateReviewRoute db now req =
     (case isAuthenticated req of
        Reject r \<Rightarrow> (r, db)
      | Next \<Rightarrow>
          (case insertReviewSchema_partial_parse (req_body req) of
             Inl issues \<Rightarrow> (Res 400 (Invalid ''Invalid review data'' issues), db)
           | Inr updates \<Rightarrow>
               (case updateReview db now (req_param req) (the (req_sub req)) updates of
                  Inl error \<Rightarrow> (Res 500 (Message ''Failed to update review''), db)
                | Inr (None, db') \<Rightarrow>
                    (Res 404 (Message ''Review not found or not authorized''), db')
                | Inr (Some review, db') \<Rightarrow> (Res 200 (ReviewJson review), db'))))"

text \<open>\<^verbatim>\<open>DELETE /api/reviews/:id\<close>; the handler reads the caller's user row and does not use it.\<close>

definition deleteReviewRoute :: "database \<Rightarrow> request \<Rightarrow> response \<times> database" where
  "deleteReviewRoute db req =
     (case isAuthenticated req of
        Reject r \<Rightarrow> (r, db)
      | Next \<Rightarrow>
          (let user = getUser db (the (req_sub req))
           in case deleteReview db (req_param req) (the (req_sub req)) of
                Inl error \<Rightarrow> (Res 500 (Message ''Failed to delete review''), db)
              | Inr (False, db') \<Rightarrow>
                  (Res 404 (Message ''Review not found or not authorized''), db')
              | Inr (True, db') \<Rightarrow> (Res 200 (Message ''Review deleted successfully''), db')))"

section \<open>Notions of the specification\<close>

text \<open>
  The approved reviews of a recipe, in table order, and the arithmetic mean of a list of
  ratings: the words of the specification, against which the reads are compared.
\<close>

definition approvedReviews :: "database \<Rightarrow> string \<Rightarrow> review list" where
  "approvedReviews db i =
     filter (\<lambda>v. rv_recipeId v = i \<and> rv_isApproved v = Some True) (reviews db)"


text \<open>The first query of \<^verbatim>\<open>getRecipe\<close> for the reviews, named for the proofs.\<close>

definition joinedReviews :: "database \<Rightarrow> string \<Rightarrow> (review \<times> user option) list" where
  "joinedReviews db i = rowsOf (orderByDesc
                   (where_q (from_q (reviewsJoinUsers db))
                      (and_sql (eq_sql (Some \<circ> rv_recipeId \<circ> fst) i) (eq_sql (rv_isApproved \<circ> fst) True)))
                   (rv_createdAt \<circ> fst))"

text \<open>
  The image reference of a candidate under a given behaviour of the image service: the
  empty string when the \<^verbatim>\<open>try\<close> block fails, the returned url otherwise.
\<close>

definition imageRef :: "(string \<Rightarrow> imageOutcome) \<Rightarrow> generatedRecipe \<Rightarrow> string" where
  "imageRef api g =
     (case generateRecipeImage_try api (g_name g) (g_description g) of
        Inl error \<Rightarrow> []
      | Inr url \<Rightarrow> url)"

text \<open>
  The row expected for the candidate handled at image call \<open>k\<close> and insert \<open>n\<close>, and the
  rows expected for a list of candidates when every insert succeeds at the first attempt.
\<close>

definition rowOf :: "env \<Rightarrow> string \<Rightarrow> generatedRecipe \<Rightarrow> nat \<Rightarrow> nat \<Rightarrow> recipe" where
  "rowOf e userId g k n =
     \<lparr>r_id = uuid e n, r_name = g_name g, r_description = Some (g_description g),
      r_ingredients = g_ingredients g, r_instructions = g_instructions g,
      r_cookingTime = Some \<lfloor>g_cookingTime g\<rfloor>, r_difficulty = Some (g_difficulty g),
      r_cuisine = Some (g_cuisine g), r_imageUrl = Some (imageRef (imageApi e k) g),
      r_userId = Some userId, r_isGenerated = Some True, r_isFeatured = Some False,
      r_isApproved = Some True, r_servings = Some \<lfloor>g_servings g\<rfloor>,
      r_createdAt = clock e n, r_updatedAt = clock e n\<rparr>"

fun expectedRows :: "env \<Rightarrow> string \<Rightarrow> generatedRecipe list \<Rightarrow> nat \<Rightarrow> nat \<Rightarrow> recipe list" where
  "expectedRows e userId [] k n = []"
| "expectedRows e userId (g # gs) k n = rowOf e userId g k n # expectedRows e userId gs (Suc k) (Suc n)"

text \<open>
  The inserts of the loop succeed at the first attempt: the caller has a user row (the
  foreign key of \<^verbatim>\<open>recipes.userId\<close>), every text of the candidates and every url the image
  service returns can be bound, the generated times and servings are 32-bit integers,
  and the identifiers the database generates are new.
\<close>

definition storableRecipe :: "generatedRecipe \<Rightarrow> bool" where
  "storableRecipe g \<longleftrightarrow>
     integerColumn (Some (g_cookingTime g)) \<and> integerColumn (Some (g_servings g))
     \<and> validText (g_name g) \<and> validText (g_description g)
     \<and> list_all validText (g_ingredients g) \<and> list_all validText (g_instructions g)
     \<and> validText (g_difficulty g) \<and> validText (g_cuisine g)"

fun storableImages :: "env \<Rightarrow> generatedRecipe list \<Rightarrow> nat \<Rightarrow> bool" where
  "storableImages e [] k = True"
| "storableImages e (g # gs) k =
     (validText (imageRef (imageApi e k) g) \<and> storableImages e gs (Suc k))"

definition storable ::
  "env \<Rightarrow> database \<Rightarrow> string \<Rightarrow> generatedRecipe list \<Rightarrow> nat \<Rightarrow> nat \<Rightarrow> bool" where
  "storable e db userId gs k n \<longleftrightarrow>
     getUser db userId \<noteq> None \<and> validText userId
     \<and> list_all storableRecipe gs \<and> storableImages e gs k
     \<and> distinct (map (uuid e) [n..<n + length gs])
     \<and> list_all (\<lambda>i. uuid e i \<notin> set (map r_id (recipes db))) [n..<n + length gs]"

section \<open>Example data\<close>

definition alice :: user where
  "alice = \<lparr>u_id = ''alice'', u_email = None, u_firstName = Some ''Alice'', u_lastName = None,
     u_profileImageUrl = None, u_role = Some ''admin'', u_createdAt = 1, u_updatedAt = 1\<rparr>"

definition bob :: user where
  "bob = \<lparr>u_id = ''bob'', u_email = None, u_firstName = Some ''Bob'', u_lastName = None,
     u_profileImageUrl = None, u_role = Some ''user'', u_createdAt = 2, u_updatedAt = 2\<rparr>"

definition carol :: user where
  "carol = \<lparr>u_id = ''carol'', u_email = None, u_firstName = Some ''Carol'', u_lastName = None,
     u_profileImageUrl = None, u_role = Some ''user'', u_createdAt = 3, u_updatedAt = 3\<rparr>"

definition asUser :: "string \<Rightarrow> request" where
  "asUser s = \<lparr>req_sub = Some s, req_param = [], req_body = Map.empty\<rparr>"

definition anonymous :: request where
  "anonymous = \<lparr>req_sub = None, req_param = [], req_body = Map.empty\<rparr>"

definition db0 :: database where
  "db0 = \<lparr>users = [alice, bob, carol], recipes = [], reviews = [], savedRecipes = []\<rparr>"

definition mkRecipe :: "string \<Rightarrow> string \<Rightarrow> string option \<Rightarrow> string \<Rightarrow> string \<Rightarrow> bool \<Rightarrow> nat \<Rightarrow> recipe" where
  "mkRecipe i n d c u a t = \<lparr>r_id = i, r_name = n, r_description = d, r_ingredients = [],
     r_instructions = [], r_cookingTime = Some 30, r_difficulty = Some ''easy'',
     r_cuisine = Some c, r_imageUrl = None, r_userId = Some u, r_isGenerated = Some True,
     r_isFeatured = Some False, r_isApproved = Some a, r_servings = Some 2,
     r_createdAt = t, r_updatedAt = t\<rparr>"

definition carbonara :: recipe where
  "carbonara = mkRecipe ''r1'' ''Pasta Carbonara'' (Some ''Creamy'') ''italian'' ''bob'' True 10"

definition tacos :: recipe where
  "tacos = mkRecipe ''r2'' ''Tacos'' (Some ''With PASTA shells'') ''mexican'' ''carol'' True 11"

definition draft :: recipe where
  "draft = mkRecipe ''r3'' ''Secret pasta stew'' None ''french'' ''bob'' False 12"

definition risotto :: recipe where
  "risotto = mkRecipe ''r4'' ''Risotto'' (Some ''Saffron rice'') ''italian'' ''carol'' True 13"

definition mkReview :: "string \<Rightarrow> string \<Rightarrow> string \<Rightarrow> int \<Rightarrow> bool \<Rightarrow> nat \<Rightarrow> review" where
  "mkReview i r u n a t = \<lparr>rv_id = i, rv_recipeId = r, rv_userId = u, rv_rating = n,
     rv_comment = None, rv_isApproved = Some a, rv_createdAt = t, rv_updatedAt = t\<rparr>"

definition carolReview :: review where
  "carolReview = mkReview ''v1'' ''r1'' ''carol'' 3 True 20"

definition hiddenReview :: review where
  "hiddenReview = mkReview ''v2'' ''r1'' ''alice'' 1 False 21"

definition aliceReview :: review where
  "aliceReview = mkReview ''v3'' ''r1'' ''alice'' 5 True 22"

definition bobReview :: review where
  "bobReview = mkReview ''v4'' ''r2'' ''bob'' 2 True 23"

definition db1 :: database where
  "db1 = \<lparr>users = [alice, bob, carol], recipes = [carbonara, tacos, draft, risotto],
     reviews = [carolReview, hiddenReview, aliceReview, bobReview], savedRecipes = []\<rparr>"


definition bobSavesCarbonara :: insertSavedRecipe where
  "bobSavesCarbonara = \<lparr>is_userId = ''bob'', is_recipeId = ''r1''\<rparr>"

definition firstSave :: savedRecipe where
  "firstSave = \<lparr>s_id = ''s1'', s_userId = ''bob'', s_recipeId = ''r1'', s_createdAt = 30\<rparr>"

definition secondSave :: savedRecipe where
  "secondSave = \<lparr>s_id = ''s2'', s_userId = ''bob'', s_recipeId = ''r1'', s_createdAt = 31\<rparr>"

definition mkRequest :: "string \<Rightarrow> string \<Rightarrow> (string \<rightharpoonup> json) \<Rightarrow> request" where
  "mkRequest caller param body = \<lparr>req_sub = Some caller, req_param = param, req_body = body\<rparr>"

definition forgedReview :: request where
  "forgedReview = mkRequest ''bob'' ''r1''
     [''rating'' \<mapsto> JNum 4, ''userId'' \<mapsto> JStr ''alice'', ''recipeId'' \<mapsto> JStr ''r2'',
      ''comment'' \<mapsto> JStr ''Good'']"

definition mkGenerated :: "string \<Rightarrow> string \<Rightarrow> generatedRecipe" where
  "mkGenerated n d = \<lparr>g_name = n, g_description = d, g_ingredients = [''egg'', ''flour''],
     g_instructions = [''Mix'', ''Cook''], g_cookingTime = 20, g_difficulty = ''easy'',
     g_cuisine = ''french'', g_servings = 2\<rparr>"

definition candidates :: "generatedRecipe list" where
  "candidates = [mkGenerated ''Omelette'' ''Fluffy'', mkGenerated ''Pancakes'' ''Thick'',
     mkGenerated ''Crepes'' ''Thin'']"

text \<open>An environment in which the second image call throws.\<close>

definition env1 :: env where
  "env1 = \<lparr>imageApi = (\<lambda>k prompt. if k = 1 then ImageThrows
                                    else ImageData [Some ''https://img.example/dish.png'']),
           uuid = (\<lambda>n. ''g'' @ replicate n CHR ''x''),
           clock = (\<lambda>n. 100 + n)\<rparr>"

definition generateRequest :: request where
  "generateRequest = mkRequest ''bob'' [] [''ingredients'' \<mapsto> JArr [JStr ''egg'', JStr ''flour'']]"

section \<open>The admin guard\<close>

text \<open>
  C8. On an admin endpoint a caller without a resolved identity is answered 401; a caller
  with an identity whose stored role is not \<^verbatim>\<open>admin\<close> (or who has no stored row) is answered
  403, a different status; the handler runs exactly when the identity is resolved and the
  stored role is \<^verbatim>\<open>admin\<close>. The same holds of \<^verbatim>\<open>isAdmin\<close> taken alone.
\<close>

theorem admin_guard:
  "adminEndpoint db req h =
     (if \<not> truthy (req_sub req) then Inl (Res 401 (Message ''Unauthorized''))
      else if storedRole db req \<noteq> Some ''admin''
           then Inl (Res 403 (Message ''Admin access required''))
           else Inr h)
   \<and> isAdmin db req =
     (if \<not> truthy (req_sub req) then Reject (Res 401 (Message ''Unauthorized''))
      else if storedRole db req \<noteq> Some ''admin''
           then Reject (Res 403 (Message ''Admin access required''))
           else Next)
   \<and> status (Res 401 (Message ''Unauthorized'')) \<noteq> status (Res 403 (Message ''Admin access required''))"
  by (auto simp: adminEndpoint_def isAuthenticated_def isAdmin_def storedRole_def truthy_def
      split: option.splits)

theorem admin_guard_witness:
  "adminEndpoint db0 anonymous (0::nat) = Inl (Res 401 (Message ''Unauthorized''))
   \<and> adminEndpoint db0 (asUser ''bob'') (0::nat) = Inl (Res 403 (Message ''Admin access required''))
   \<and> adminEndpoint db0 (asUser ''dave'') (0::nat) = Inl (Res 403 (Message ''Admin access required''))
   \<and> adminEndpoint db0 (asUser ''alice'') (0::nat) = Inr 0"
  using admin_guard [of db0 anonymous "0::nat"] admin_guard [of db0 "asUser ''bob''" "0::nat"]
    admin_guard [of db0 "asUser ''dave''" "0::nat"] admin_guard [of db0 "asUser ''alice''" "0::nat"]
  by (simp add: storedRole_def getUser_def truthy_def db0_def asUser_def anonymous_def
      alice_def bob_def carol_def)

section \<open>Recipe reads\<close>

subsection \<open>What a query returns\<close>

lemma rowsOf_where:
  "rowsOf (where_q (from_q xs) c) = filter (\<lambda>r. c r = Some True) xs"
  by (simp add: rowsOf_def where_q_def from_q_def)


lemma approved_cond:
  "and_sql (eq_sql (Some \<circ> rv_recipeId) i) (eq_sql rv_isApproved True) v = Some True
     \<longleftrightarrow> rv_recipeId v = i \<and> rv_isApproved v = Some True"
  by (cases "rv_isApproved v") (auto simp: and_sql_def eq_sql_def)



lemma id_cond: "eq_sql (Some \<circ> r_id) i r = Some True \<longleftrightarrow> r_id r = i"
  by (simp add: eq_sql_def)

lemma approved_rows: 
  "rowsOf (where_q (from_q (reviews db))
       (and_sql (eq_sql (Some \<circ> rv_recipeId) i) (eq_sql rv_isApproved True))) = approvedReviews db i"
  by (simp add: rowsOf_where approved_cond approvedReviews_def)





lemma getRecipe_unfold:
  "getRecipe db i =
     (case filter (\<lambda>r. r_id r = i) (recipes db) of
        [] \<Rightarrow> None
      | recipe # _ \<Rightarrow>
          Some \<lparr>rr_recipe = recipe,
                rr_reviews = map (\<lambda>(review, user). \<lparr>rw_review = review, rw_user = user\<rparr>)
                               (joinedReviews db i),
                averageRating = (case avg (map rv_rating (approvedReviews db i)) of
                                   None \<Rightarrow> 0 | Some a \<Rightarrow> Number a),
                reviewCount = length (approvedReviews db i)\<rparr>)"
proof -
  have "getRecipe db i =
     (case rowsOf (where_q (from_q (recipes db)) (eq_sql (Some \<circ> r_id) i)) of
        [] \<Rightarrow> None
      | recipe # _ \<Rightarrow>
          Some \<lparr>rr_recipe = recipe,
                rr_reviews = map (\<lambda>(review, user). \<lparr>rw_review = review, rw_user = user\<rparr>)
                               (joinedReviews db i),
                averageRating = (case avg (map rv_rating (approvedReviews db i)) of
                                   None \<Rightarrow> 0 | Some a \<Rightarrow> Number a),
                reviewCount = length (approvedReviews db i)\<rparr>)"
    by (simp only: getRecipe_def Let_def approved_rows joinedReviews_def [symmetric])
  then show ?thesis by (simp only: rowsOf_where id_cond)
qed


lemma filter_unique_key:
  "distinct (map f xs) \<Longrightarrow> x \<in> set xs \<Longrightarrow> filter (\<lambda>y. f y = f x) xs = [x]"
proof (induction xs)
  case Nil
  then show ?case by simp
next
  case (Cons a xs)
  show ?case
  proof (cases "a = x")
    case True
    with Cons.prems have "\<forall>y \<in> set xs. f y \<noteq> f x" by (auto simp: image_iff)
    then have "filter (\<lambda>y. f y = f x) xs = []" by (simp add: filter_empty_conv)
    with True show ?thesis by simp
  next
    case False
    with Cons.prems have "x \<in> set xs" by simp
    moreover from Cons.prems this have "f a \<noteq> f x" by auto
    ultimately show ?thesis using Cons by simp
  qed
qed

subsection \<open>The average as a number\<close>














subsection \<open>Single recipe\<close>





text \<open>
  C10. The fetch by id never looks at \<^verbatim>\<open>isApproved\<close>: for every stored recipe, whatever
  its flag, and for every request (no guard is registered on the route), the route answers
  200 with a recipe of that id, which is the stored row itself since ids are unique.
\<close>

theorem getRecipe_ignores_approval:
  assumes "r \<in> set (recipes db)"
  shows "\<exists>out. getRecipe db (r_id r) = Some out
           \<and> getRecipeRoute db (req\<lparr>req_param := r_id r\<rparr>) = Res 200 (RecipeJson out)
           \<and> rr_recipe out \<in> set (recipes db) \<and> r_id (rr_recipe out) = r_id r
           \<and> (distinct (map r_id (recipes db)) \<longrightarrow> rr_recipe out = r)"
proof (cases "filter (\<lambda>x. r_id x = r_id r) (recipes db)")
  case Nil
  with assms show ?thesis by (auto simp: filter_empty_conv)
next
  case (Cons a rest)
  then have "a \<in> set (filter (\<lambda>x. r_id x = r_id r) (recipes db))" by simp
  then have a: "a \<in> set (recipes db)" "r_id a = r_id r" by auto
  have "distinct (map r_id (recipes db)) \<Longrightarrow> a = r"
    using filter_unique_key [of r_id "recipes db" r] assms Cons by simp
  with a Cons show ?thesis
    by (simp add: getRecipe_unfold getRecipeRoute_def)
qed

theorem getRecipe_ignores_approval_witness:
  "r_isApproved draft = Some False \<and> draft \<in> set (recipes db1)
     \<and> (\<exists>out. getRecipeRoute db1 (anonymous\<lparr>req_param := ''r3''\<rparr>) = Res 200 (RecipeJson out)
            \<and> rr_recipe out = draft)"
proof -
  have mem: "draft \<in> set (recipes db1)" by (simp add: db1_def)
  have dist: "distinct (map r_id (recipes db1))"
    by (simp add: db1_def carbonara_def tacos_def draft_def risotto_def mkRecipe_def)
  have rid: "r_id draft = ''r3''" by (simp add: draft_def mkRecipe_def)
  have "r_isApproved draft = Some False" by (simp add: draft_def mkRecipe_def)
  with getRecipe_ignores_approval [OF mem, of anonymous] mem dist rid show ?thesis by auto
qed

subsection \<open>Recipe list\<close>

text \<open>
  Without any filter the one condition of the query is the approval test, and every
  listed recipe is approved.
\<close>

lemma set_execute:
  "execute q = Inr rows \<Longrightarrow> set rows \<subseteq> set (rowsOf q)"
  by (auto simp: execute_def Let_def split: if_splits option.splits
      dest: in_set_takeD in_set_dropD)

lemma getRecipes_without_filters:
  assumes "\<not> truthy (f_userId fs)" "\<not> truthy (f_cuisine fs)" "\<not> truthy (f_difficulty fs)"
    "\<not> truthy (f_search fs)" "getRecipes db limit offset fs = Inr results"
    "x \<in> set results"
  shows "r_isApproved (ru_recipe x) = Some True"
proof -
  let ?q = "offset_q (limit_q (orderByDesc
      (where_q (from_q (recipesJoinUsers db)) (eq_sql (r_isApproved \<circ> fst) True))
      (r_createdAt \<circ> fst)) limit) offset"
  from assms obtain rows where ex: "execute ?q = Inr rows"
    and res: "results = map (\<lambda>(recipe, user). \<lparr>ru_recipe = recipe, ru_user = user\<rparr>) rows"
    by (auto simp: getRecipes_def Let_def split: sum.splits)
  from assms(6) res obtain p where p: "p \<in> set rows" and x: "ru_recipe x = fst p"
    by (auto simp: case_prod_unfold)
  from set_execute [OF ex] p have "p \<in> set (rowsOf ?q)" by blast
  then have "eq_sql (r_isApproved \<circ> fst) True p = Some True"
    by (simp add: rowsOf_def where_q_def from_q_def orderByDesc_def limit_q_def offset_q_def)
  then show ?thesis using x by (auto simp: eq_sql_def)
qed

text \<open>The featured list holds at most ten recipes, each featured and approved.\<close>

lemma getFeaturedRecipes_approved:
  "\<exists>results. getFeaturedRecipes db = Inr results \<and> length results \<le> 10
     \<and> (\<forall>x \<in> set results. r_isApproved (ru_recipe x) = Some True
                            \<and> r_isFeatured (ru_recipe x) = Some True)"
proof -
  let ?c = "and_sql (eq_sql (r_isFeatured \<circ> fst) True) (eq_sql (r_isApproved \<circ> fst) True)"
  let ?q = "limit_q (orderByDesc (where_q (from_q (recipesJoinUsers db)) ?c)
              (r_createdAt \<circ> fst)) 10"
  obtain rows where ex: "execute ?q = Inr rows" and len: "length rows \<le> 10"
    by (simp add: execute_def limit_q_def orderByDesc_def where_q_def from_q_def)
  have "\<forall>p \<in> set rows. r_isApproved (fst p) = Some True \<and> r_isFeatured (fst p) = Some True"
  proof
    fix p
    assume "p \<in> set rows"
    with set_execute [OF ex] have "p \<in> set (rowsOf ?q)" by blast
    then have "?c p = Some True"
      by (simp add: rowsOf_def where_q_def from_q_def orderByDesc_def limit_q_def)
    then show "r_isApproved (fst p) = Some True \<and> r_isFeatured (fst p) = Some True"
      by (cases "r_isApproved (fst p)"; cases "r_isFeatured (fst p)")
         (auto simp: and_sql_def eq_sql_def split: if_splits)
  qed
  with ex len show ?thesis
    by (auto simp: getFeaturedRecipes_def case_prod_unfold)
qed

text \<open>
  C1. With the \<^verbatim>\<open>userId\<close> filter the list contains a recipe that is not approved: the
  second \<^verbatim>\<open>.where\<close> replaced the condition on \<^verbatim>\<open>isApproved\<close>.
\<close>

theorem getRecipes_userId_filter_lists_unapproved:
  "getRecipes db1 20 0 \<lparr>f_userId = Some ''bob'', f_cuisine = None, f_difficulty = None,
       f_search = None\<rparr>
     = Inr [\<lparr>ru_recipe = draft, ru_user = Some bob\<rparr>, \<lparr>ru_recipe = carbonara, ru_user = Some bob\<rparr>]
   \<and> r_isApproved draft = Some False"
  by code_simp

text \<open>
  C2. With \<^verbatim>\<open>cuisine = italian\<close> and \<^verbatim>\<open>search = pasta\<close> only the search condition, set
  last, selects: the list holds a mexican and a french recipe, one of them not approved.
\<close>

theorem getRecipes_last_filter_wins:
  "getRecipes db1 20 0 \<lparr>f_userId = None, f_cuisine = Some ''italian'', f_difficulty = None,
       f_search = Some ''pasta''\<rparr>
     = Inr [\<lparr>ru_recipe = draft, ru_user = Some bob\<rparr>, \<lparr>ru_recipe = tacos, ru_user = Some carol\<rparr>,
            \<lparr>ru_recipe = carbonara, ru_user = Some bob\<rparr>]
   \<and> r_cuisine tacos = Some ''mexican'' \<and> r_cuisine draft = Some ''french''
   \<and> r_isApproved draft = Some False"
  by code_simp

section \<open>Saved recipes\<close>

text \<open>
  An insert with an id that no saved row has appends a row for the pair, whether or not
  the pair is saved already.
\<close>

lemma saveRecipe_appends:
  assumes "newId \<notin> set (map s_id (savedRecipes db))" "getUser db (is_userId d) \<noteq> None"
    "filter (\<lambda>r. r_id r = is_recipeId d) (recipes db) \<noteq> []"
    "validText (is_userId d)" "validText (is_recipeId d)"
  shows "saveRecipe db newId now d
         = Inr (Some \<lparr>s_id = newId, s_userId = is_userId d, s_recipeId = is_recipeId d,
                       s_createdAt = now\<rparr>,
                db\<lparr>savedRecipes := savedRecipes db
                   @ [\<lparr>s_id = newId, s_userId = is_userId d, s_recipeId = is_recipeId d,
                        s_createdAt = now\<rparr>]\<rparr>)"
  using assms by (simp add: saveRecipe_def Let_def)

text \<open>
  C3. Saving the same (user, recipe) pair twice, each insert with its own generated id,
  is no conflict: both inserts return a row and the table holds two rows for the pair.
\<close>

theorem saveRecipe_twice_two_rows:
  "saveRecipe db1 ''s1'' 30 bobSavesCarbonara
     = Inr (Some firstSave, db1\<lparr>savedRecipes := [firstSave]\<rparr>)
   \<and> saveRecipe (db1\<lparr>savedRecipes := [firstSave]\<rparr>) ''s2'' 31 bobSavesCarbonara
     = Inr (Some secondSave, db1\<lparr>savedRecipes := [firstSave, secondSave]\<rparr>)
   \<and> s_userId firstSave = s_userId secondSave \<and> s_recipeId firstSave = s_recipeId secondSave
   \<and> firstSave \<noteq> secondSave"
  by code_simp

section \<open>Review validation\<close>

text \<open>The rating field accepts exactly the JSON numbers from 1 to 5, whole or not.\<close>

lemma zRating_accepts:
  "(\<exists>x. zRating v = Inr x) \<longleftrightarrow> (\<exists>q. v = Some (JNum q) \<and> 1 \<le> q \<and> q \<le> 5)"
  by (cases v rule: zRating.cases) auto

lemma zRating_bounds:
  "zRating (Some (JNum 0)) = Inl ''too_small'' \<and> zRating (Some (JNum 6)) = Inl ''too_big''
   \<and> zRating (Some (JNum 1)) = Inr 1 \<and> zRating (Some (JNum 5)) = Inr 5"
  by simp

lemma createReviewRoute_rating_bounds:
  "createReviewRoute db1 ''v9'' 40 (mkRequest ''bob'' ''r1'' [''rating'' \<mapsto> JNum 0])
     = (Res 400 (Invalid ''Invalid review data'' [Issue ''rating'' ''too_small'']), db1)
   \<and> createReviewRoute db1 ''v9'' 40 (mkRequest ''bob'' ''r1'' [''rating'' \<mapsto> JNum 6])
     = (Res 400 (Invalid ''Invalid review data'' [Issue ''rating'' ''too_big'']), db1)
   \<and> status (fst (createReviewRoute db1 ''v9'' 40 (mkRequest ''bob'' ''r1'' [''rating'' \<mapsto> JNum 1])))
     = 200
   \<and> status (fst (createReviewRoute db1 ''v9'' 40 (mkRequest ''bob'' ''r1'' [''rating'' \<mapsto> JNum 5])))
     = 200"
  by code_simp

text \<open>
  C4. A rating of 2.5 passes the validation on create and on partial update; the create
  route then fails in the database (the column is an integer) and answers 500, not 400.
\<close>

theorem review_validation_accepts_fraction:
  "insertReviewSchema_parse
       [''recipeId'' \<mapsto> JStr ''r1'', ''userId'' \<mapsto> JStr ''bob'', ''rating'' \<mapsto> JNum (5 / 2)]
     = Inr \<lparr>iv_recipeId = ''r1'', iv_userId = ''bob'', iv_rating = 5 / 2, iv_comment = None,
            iv_isApproved = None\<rparr>
   \<and> insertReviewSchema_partial_parse [''rating'' \<mapsto> JNum (5 / 2)]
     = Inr \<lparr>up_recipeId = None, up_userId = None, up_rating = Some (5 / 2), up_comment = None,
            up_isApproved = None\<rparr>
   \<and> createReviewRoute db1 ''v9'' 40 (mkRequest ''bob'' ''r1'' [''rating'' \<mapsto> JNum (5 / 2)])
     = (Res 500 (Message ''Failed to create review''), db1)"
  by code_simp

section \<open>Review creation\<close>

lemma parse_fields:
  assumes "insertReviewSchema_parse obj = Inr d"
  shows "obj ''recipeId'' = Some (JStr (iv_recipeId d))"
    and "obj ''userId'' = Some (JStr (iv_userId d))"
  using assms
  by (auto simp: insertReviewSchema_parse_def Let_def split: sum.splits elim: zString.elims)

lemma createReview_row:
  assumes "createReview db newId now d = Inr (v, db')"
  shows "rv_userId v = iv_userId d" and "rv_recipeId v = iv_recipeId d"
    and "reviews db' = reviews db @ [v]"
  using assms by (auto simp: createReview_def Let_def split: if_splits)

lemma spread_overrides:
  "(b(''userId'' := x, ''recipeId'' := y))(''recipeId'' \<mapsto> p, ''userId'' \<mapsto> s)
     = b(''recipeId'' \<mapsto> p, ''userId'' \<mapsto> s)"
  by (rule ext) simp

text \<open>
  C9. The answer and the database after \<^verbatim>\<open>POST /api/recipes/:id/reviews\<close> do not depend on
  what the body holds under \<^verbatim>\<open>userId\<close> and \<^verbatim>\<open>recipeId\<close> (any value, or none); and a
  review that is created carries the caller's session identity and the recipe id of the
  path, and is the one row added.
\<close>

theorem review_identity_from_session:
  "createReviewRoute db newId now (req\<lparr>req_body := (req_body req)(''userId'' := x, ''recipeId'' := y)\<rparr>)
     = createReviewRoute db newId now req
   \<and> (\<forall>v db'. createReviewRoute db newId now req = (Res 200 (ReviewJson v), db') \<longrightarrow>
         req_sub req = Some (rv_userId v) \<and> rv_recipeId v = req_param req
         \<and> reviews db' = reviews db @ [v])"
proof (intro conjI allI impI)
  show "createReviewRoute db newId now (req\<lparr>req_body := (req_body req)(''userId'' := x, ''recipeId'' := y)\<rparr>)
     = createReviewRoute db newId now req"
    by (simp add: createReviewRoute_def isAuthenticated_def spread_overrides)
next
  fix v db'
  assume ok: "createReviewRoute db newId now req = (Res 200 (ReviewJson v), db')"
  then have auth: "truthy (req_sub req)"
    by (auto simp: createReviewRoute_def isAuthenticated_def split: if_splits)
  then obtain s where s: "req_sub req = Some s" by (auto simp: truthy_def split: option.splits)
  from ok auth obtain d where
    d: "insertReviewSchema_parse ((req_body req)(''recipeId'' \<mapsto> JStr (req_param req),
          ''userId'' \<mapsto> JStr (the (req_sub req)))) = Inr d"
    and c: "createReview db newId now d = Inr (v, db')"
    by (auto simp: createReviewRoute_def isAuthenticated_def split: sum.splits)
  from parse_fields [OF d] s have "iv_userId d = s" "iv_recipeId d = req_param req" by auto
  with createReview_row [OF c] s
  show "req_sub req = Some (rv_userId v)" "rv_recipeId v = req_param req"
    "reviews db' = reviews db @ [v]" by auto
qed

theorem review_identity_from_session_witness:
  "\<exists>v db'. createReviewRoute db1 ''v9'' 40 forgedReview = (Res 200 (ReviewJson v), db')
      \<and> rv_userId v = ''bob'' \<and> rv_recipeId v = ''r1'' \<and> rv_rating v = 4"
proof -
  have "fst (createReviewRoute db1 ''v9'' 40 forgedReview) =
      Res 200 (ReviewJson \<lparr>rv_id = ''v9'', rv_recipeId = ''r1'', rv_userId = ''bob'',
        rv_rating = 4, rv_comment = Some ''Good'', rv_isApproved = Some True,
        rv_createdAt = 40, rv_updatedAt = 40\<rparr>)"
    by code_simp
  then obtain v db' where ok: "createReviewRoute db1 ''v9'' 40 forgedReview = (Res 200 (ReviewJson v), db')"
    and r: "rv_rating v = 4"
    by (cases "createReviewRoute db1 ''v9'' 40 forgedReview") auto
  from review_identity_from_session [of db1 "''v9''" 40 forgedReview None None] ok
  have "req_sub forgedReview = Some (rv_userId v) \<and> rv_recipeId v = req_param forgedReview"
    by blast
  then have "rv_userId v = ''bob'' \<and> rv_recipeId v = ''r1''"
    by (simp add: forgedReview_def mkRequest_def)
  with ok r show ?thesis by blast
qed

section \<open>Ownership\<close>

lemma no_hit:
  assumes "distinct (map rv_id (reviews db))" "v \<in> set (reviews db)" "rv_userId v \<noteq> c"
  shows "filter (\<lambda>w. rv_id w = rv_id v \<and> rv_userId w = c) (reviews db) = []"
proof -
  have "filter (\<lambda>w. rv_id w = rv_id v \<and> rv_userId w = c) (reviews db)
      = filter (\<lambda>w. rv_userId w = c) (filter (\<lambda>w. rv_id w = rv_id v) (reviews db))"
    by (simp add: conj_commute)
  also have "\<dots> = filter (\<lambda>w. rv_userId w = c) [v]"
    using filter_unique_key [of rv_id "reviews db" v] assms by simp
  finally show ?thesis using assms by simp
qed

lemma deleteReview_miss:
  assumes "filter (\<lambda>w. rv_id w = i \<and> rv_userId w = c) (reviews db) = []"
    "validText i" "validText c"
  shows "deleteReview db i c = Inr (False, db)"
proof -
  from assms have "filter (\<lambda>w. \<not> (rv_id w = i \<and> rv_userId w = c)) (reviews db) = reviews db"
    by (auto simp: filter_empty_conv intro: filter_True)
  with assms show ?thesis by (simp add: deleteReview_def Let_def)
qed

lemma updateReview_miss:
  assumes "filter (\<lambda>w. rv_id w = i \<and> rv_userId w = c) (reviews db) = []"
    "validText i" "validText c"
  shows "updateReview db now i c up =
           (if \<not> updatesText up then Inl InvalidText
            else if \<not> integerColumn (up_rating up) then Inl (the (integerError (up_rating up)))
            else Inr (None, db))"
proof -
  from assms have "\<forall>w \<in> set (reviews db). \<not> (rv_id w = i \<and> rv_userId w = c)"
    by (simp add: filter_empty_conv)
  then have "map (\<lambda>w. if rv_id w = i \<and> rv_userId w = c then setReview up now w else w)
      (reviews db) = reviews db"
    by (intro map_idI) auto
  with assms show ?thesis by (simp add: updateReview_def Let_def integerColumn_def)
qed

text \<open>
  C5, as amended. Let the caller be authenticated, with a stored role that is not
  \<^verbatim>\<open>admin\<close>, the caller's id and the id of the path being text the database can bind.
  Deleting a recipe owned by someone else is answered 403 and changes nothing; the one
  route that updates a recipe is an admin route, which answers 403 before its handler
  runs. For a review owned by someone else a delete is answered 404 ``Review not found or
  not authorized'' and changes nothing; an update changes nothing and never succeeds: it
  is answered 400 when the body is invalid and 404 when the body is valid and the database
  can bind it (a whole rating, text without U+0000).
\<close>

theorem non_owner_is_refused:
  assumes caller: "req_sub req = Some c" "c \<noteq> []" "validText c"
    and param: "validText (req_param req)"
    and role: "storedRole db req \<noteq> Some ''admin''"
  shows "(r \<in> set (recipes db) \<and> distinct (map r_id (recipes db)) \<and> req_param req = r_id r
             \<and> r_userId r \<noteq> Some c
           \<longrightarrow> deleteRecipeRoute db req
                 = (Res 403 (Message ''Not authorized to delete this recipe''), db))
       \<and> (v \<in> set (reviews db) \<and> distinct (map rv_id (reviews db)) \<and> req_param req = rv_id v
             \<and> rv_userId v \<noteq> c
           \<longrightarrow> deleteReviewRoute db req
                 = (Res 404 (Message ''Review not found or not authorized''), db)
               \<and> snd (updateReviewRoute db now req) = db
               \<and> status (fst (updateReviewRoute db now req)) \<noteq> 200
               \<and> (\<forall>issues. insertReviewSchema_partial_parse (req_body req) = Inl issues \<longrightarrow>
                     fst (updateReviewRoute db now req)
                       = Res 400 (Invalid ''Invalid review data'' issues))
               \<and> (\<forall>up. insertReviewSchema_partial_parse (req_body req) = Inr up
                        \<and> integerColumn (up_rating up) \<and> updatesText up \<longrightarrow>
                     fst (updateReviewRoute db now req)
                       = Res 404 (Message ''Review not found or not authorized'')))
       \<and> adminEndpoint db req handler = Inl (Res 403 (Message ''Admin access required''))"
proof (intro conjI allI impI)
  from caller role
  show "adminEndpoint db req handler = Inl (Res 403 (Message ''Admin access required''))"
    by (auto simp: adminEndpoint_def isAuthenticated_def isAdmin_def storedRole_def truthy_def
        split: option.splits)
next
  assume h: "r \<in> set (recipes db) \<and> distinct (map r_id (recipes db)) \<and> req_param req = r_id r
             \<and> r_userId r \<noteq> Some c"
  then have "filter (\<lambda>x. r_id x = req_param req) (recipes db) = [r]"
    using filter_unique_key [of r_id "recipes db" r] by simp
  with h caller role show "deleteRecipeRoute db req
                 = (Res 403 (Message ''Not authorized to delete this recipe''), db)"
    by (simp add: deleteRecipeRoute_def isAuthenticated_def truthy_def getRecipe_unfold
        storedRole_def Let_def split: option.splits)
next
  assume h: "v \<in> set (reviews db) \<and> distinct (map rv_id (reviews db)) \<and> req_param req = rv_id v
             \<and> rv_userId v \<noteq> c"
  then have miss: "filter (\<lambda>w. rv_id w = req_param req \<and> rv_userId w = c) (reviews db) = []"
    using no_hit [of db v c] by simp
  note del = deleteReview_miss [OF miss param caller(3)]
  note upd = updateReview_miss [OF miss param caller(3)]
  show "deleteReviewRoute db req = (Res 404 (Message ''Review not found or not authorized''), db)"
    using caller by (simp add: deleteReviewRoute_def isAuthenticated_def truthy_def del)
  show "snd (updateReviewRoute db now req) = db"
    using caller by (simp add: updateReviewRoute_def isAuthenticated_def truthy_def
        upd split: sum.splits)
  show "status (fst (updateReviewRoute db now req)) \<noteq> 200"
    using caller by (simp add: updateReviewRoute_def isAuthenticated_def truthy_def
        upd split: sum.splits)
  { fix issues
    assume "insertReviewSchema_partial_parse (req_body req) = Inl issues"
    then show "fst (updateReviewRoute db now req) = Res 400 (Invalid ''Invalid review data'' issues)"
      using caller by (simp add: updateReviewRoute_def isAuthenticated_def truthy_def) }
  { fix up
    assume "insertReviewSchema_partial_parse (req_body req) = Inr up
        \<and> integerColumn (up_rating up) \<and> updatesText up"
    then show "fst (updateReviewRoute db now req)
                       = Res 404 (Message ''Review not found or not authorized'')"
      using caller by (simp add: updateReviewRoute_def isAuthenticated_def truthy_def upd) }
qed

theorem non_owner_is_refused_witness:
  "deleteRecipeRoute db1 (mkRequest ''carol'' ''r1'' Map.empty)
     = (Res 403 (Message ''Not authorized to delete this recipe''), db1)
   \<and> deleteReviewRoute db1 (mkRequest ''bob'' ''v1'' Map.empty)
     = (Res 404 (Message ''Review not found or not authorized''), db1)
   \<and> updateReviewRoute db1 50 (mkRequest ''bob'' ''v1'' [''rating'' \<mapsto> JNum 1])
     = (Res 404 (Message ''Review not found or not authorized''), db1)
   \<and> adminEndpoint db1 (mkRequest ''carol'' ''r1'' Map.empty) ()
     = Inl (Res 403 (Message ''Admin access required''))"
proof -
  have rec: "carbonara \<in> set (recipes db1)" "distinct (map r_id (recipes db1))"
    "r_id carbonara = ''r1''" "r_userId carbonara \<noteq> Some ''carol''"
    by (simp_all add: db1_def carbonara_def tacos_def draft_def risotto_def mkRecipe_def)
  have role: "storedRole db1 (mkRequest ''carol'' ''r1'' Map.empty) \<noteq> Some ''admin''"
    "storedRole db1 (mkRequest ''bob'' ''v1'' Map.empty) \<noteq> Some ''admin''"
    "storedRole db1 (mkRequest ''bob'' ''v1'' [''rating'' \<mapsto> JNum 1]) \<noteq> Some ''admin''"
    by (simp_all add: storedRole_def getUser_def mkRequest_def db1_def alice_def bob_def carol_def)
  have rev: "carolReview \<in> set (reviews db1)" "distinct (map rv_id (reviews db1))"
    "rv_id carolReview = ''v1''" "rv_userId carolReview \<noteq> ''bob''"
    by (simp_all add: db1_def carolReview_def hiddenReview_def aliceReview_def bobReview_def
        mkReview_def)
  have valid: "validText ''carol''" "validText ''bob''" "validText ''r1''" "validText ''v1''"
    by (simp_all add: validText_def)
  have parse: "insertReviewSchema_partial_parse [''rating'' \<mapsto> JNum 1]
      = Inr \<lparr>up_recipeId = None, up_userId = None, up_rating = Some 1, up_comment = None,
            up_isApproved = None\<rparr>"
    by code_simp
  have int: "integerColumn (Some 1)"
    by (simp add: integerColumn_def integerError_def isInteger_def)
  have ut: "updatesText \<lparr>up_recipeId = None, up_userId = None, up_rating = Some 1,
      up_comment = None, up_isApproved = None\<rparr>"
    by (simp add: updatesText_def validTextOpt_def)
  have a: "deleteRecipeRoute db1 (mkRequest ''carol'' ''r1'' Map.empty)
     = (Res 403 (Message ''Not authorized to delete this recipe''), db1)"
    using non_owner_is_refused [of "mkRequest ''carol'' ''r1'' Map.empty" "''carol''" db1
        carbonara carolReview 0 "()"] rec role valid by (simp add: mkRequest_def)
  have d: "adminEndpoint db1 (mkRequest ''carol'' ''r1'' Map.empty) ()
     = Inl (Res 403 (Message ''Admin access required''))"
    using non_owner_is_refused [of "mkRequest ''carol'' ''r1'' Map.empty" "''carol''" db1
        carbonara carolReview 0 "()"] role valid by (simp add: mkRequest_def)
  have b: "deleteReviewRoute db1 (mkRequest ''bob'' ''v1'' Map.empty)
     = (Res 404 (Message ''Review not found or not authorized''), db1)"
    using non_owner_is_refused [of "mkRequest ''bob'' ''v1'' Map.empty" "''bob''" db1
        carbonara carolReview 0 "()"] rev role valid by (simp add: mkRequest_def)
  have c: "updateReviewRoute db1 50 (mkRequest ''bob'' ''v1'' [''rating'' \<mapsto> JNum 1])
     = (Res 404 (Message ''Review not found or not authorized''), db1)"
    using non_owner_is_refused [of "mkRequest ''bob'' ''v1'' [''rating'' \<mapsto> JNum 1]" "''bob''"
        db1 carbonara carolReview 50 "()"] rev role valid parse int ut
    by (simp add: mkRequest_def prod_eq_iff)
  from a b c d show ?thesis by simp
qed

text \<open>
  C5 as stated fails: bob, whose role is \<^verbatim>\<open>user\<close>, deletes carol's review and is answered
  404, not 403.
\<close>

theorem non_owner_review_delete_is_not_forbidden:
  "carolReview \<in> set (reviews db1) \<and> rv_id carolReview = ''v1'' \<and> rv_userId carolReview = ''carol''
   \<and> storedRole db1 (mkRequest ''bob'' ''v1'' Map.empty) = Some ''user''
   \<and> isAuthenticated (mkRequest ''bob'' ''v1'' Map.empty) = Next
   \<and> deleteReviewRoute db1 (mkRequest ''bob'' ''v1'' Map.empty)
        = (Res 404 (Message ''Review not found or not authorized''), db1)
   \<and> status (fst (deleteReviewRoute db1 (mkRequest ''bob'' ''v1'' Map.empty))) \<noteq> 403"
  by code_simp

section \<open>Recipe generation\<close>

lemma generateRecipeImage_total:
  "generateRecipeImage api name description = Inr (case generateRecipeImage_try api name description of Inl error \<Rightarrow> [] | Inr url \<Rightarrow> url)"
  by (simp add: generateRecipeImage_def split: sum.splits)

lemma length_expectedRows: "length (expectedRows e u gs k n) = length gs"
  by (induction gs arbitrary: k n) auto

lemma nth_expectedRows:
  "i < length gs \<Longrightarrow> expectedRows e u gs k n ! i = rowOf e u (gs ! i) (k + i) (n + i)"
proof (induction gs arbitrary: k n i)
  case Nil
  then show ?case by simp
next
  case (Cons g gs)
  then show ?case by (cases i) auto
qed

lemma createRecipe_generated:
  assumes "getUser db u \<noteq> None" "validText u" "storableRecipe g"
    "validText (imageRef (imageApi e k) g)" "uuid e n \<notin> set (map r_id (recipes db))"
  shows "createRecipe db (uuid e n) (clock e n)
           (fromGenerated g (Some (imageRef (imageApi e k) g)) u)
         = Inr (rowOf e u g k n, db\<lparr>recipes := recipes db @ [rowOf e u g k n]\<rparr>)"
  using assms
  by (simp add: createRecipe_def fromGenerated_def rowOf_def integerColumn_def withDefault_def
      storableRecipe_def validTextOpt_def Let_def)

lemma storable_sets:
  "storable e db u gs k n \<longleftrightarrow>
     getUser db u \<noteq> None \<and> validText u
     \<and> (\<forall>g \<in> set gs. storableRecipe g) \<and> storableImages e gs k
     \<and> inj_on (uuid e) {n..<n + length gs}
     \<and> (\<forall>i \<in> {n..<n + length gs}. uuid e i \<notin> r_id ` set (recipes db))"
  by (simp only: storable_def distinct_map distinct_upt set_upt list_all_iff set_map simp_thms)

lemma storable_head:
  assumes "storable e db u (g # gs) k n"
  shows "getUser db u \<noteq> None" "validText u" "storableRecipe g"
    "validText (imageRef (imageApi e k) g)" "uuid e n \<notin> set (map r_id (recipes db))"
proof -
  have "n \<in> {n..<n + length (g # gs)}" by simp
  with assms show "uuid e n \<notin> set (map r_id (recipes db))"
    unfolding storable_sets set_map by blast
  from assms show "getUser db u \<noteq> None" "validText u" "storableRecipe g"
    "validText (imageRef (imageApi e k) g)"
    unfolding storable_sets by simp_all
qed

lemma storable_step:
  assumes "storable e db u (g # gs) k n"
  shows "storable e (db\<lparr>recipes := recipes db @ [rowOf e u g k n]\<rparr>) u gs (Suc k) (Suc n)"
proof -
  let ?db = "db\<lparr>recipes := recipes db @ [rowOf e u g k n]\<rparr>"
  from assms have inj: "inj_on (uuid e) {n..<n + length (g # gs)}"
    and fresh: "\<forall>i \<in> {n..<n + length (g # gs)}. uuid e i \<notin> r_id ` set (recipes db)"
    and rest: "getUser db u \<noteq> None" "validText u" "\<forall>x \<in> set gs. storableRecipe x"
      "storableImages e gs (Suc k)"
    unfolding storable_sets by simp_all
  have sub: "{Suc n..<Suc n + length gs} \<subseteq> {n..<n + length (g # gs)}" by auto
  have inj': "inj_on (uuid e) {Suc n..<Suc n + length gs}"
    using inj sub by (rule inj_on_subset)
  have ids: "r_id ` set (recipes ?db) = insert (uuid e n) (r_id ` set (recipes db))"
    by (simp add: rowOf_def)
  have fresh': "\<forall>i \<in> {Suc n..<Suc n + length gs}. uuid e i \<notin> r_id ` set (recipes ?db)"
  proof
    fix i
    assume i: "i \<in> {Suc n..<Suc n + length gs}"
    with sub have i': "i \<in> {n..<n + length (g # gs)}" by blast
    have n': "n \<in> {n..<n + length (g # gs)}" by simp
    from i have "i \<noteq> n" by simp
    with inj i' n' have "uuid e i \<noteq> uuid e n" by (auto dest: inj_onD)
    moreover from fresh i' have "uuid e i \<notin> r_id ` set (recipes db)" by blast
    ultimately show "uuid e i \<notin> r_id ` set (recipes ?db)" unfolding ids by simp
  qed
  have "getUser ?db u \<noteq> None" using rest(1) by (simp add: getUser_def)
  with rest(2,3,4) inj' fresh' show ?thesis unfolding storable_sets by blast
qed

lemma saveGenerated_all_saved:
  "storable e db u gs k n \<Longrightarrow>
     saveGenerated e u gs k n saved db
       = (Inr (saved @ expectedRows e u gs k n),
          db\<lparr>recipes := recipes db @ expectedRows e u gs k n\<rparr>)"
proof (induction gs arbitrary: k n saved db)
  case Nil
  then show ?case by simp
next
  case (Cons g gs)
  note h = storable_head [OF Cons.prems]
  have img: "generateRecipeImage (imageApi e k) (g_name g) (g_description g)
      = Inr (imageRef (imageApi e k) g)"
    by (simp add: generateRecipeImage_total imageRef_def)
  note step = createRecipe_generated [OF h]
  note ih = Cons.IH [OF storable_step [OF Cons.prems], of "saved @ [rowOf e u g k n]"]
  show ?case
    by (simp add: img step ih)
qed

text \<open>
  C7. \<^verbatim>\<open>generateRecipeImage\<close> never returns an error, and returns the empty string when its
  \<^verbatim>\<open>try\<close> block fails. In the generate-from-ingredients route, when the inserts succeed
  (\<open>storable\<close>), whether the image service throws or answers at each call: the answer is
  200 with one saved recipe per generated recipe, in order, all appended to the table.
  Each saved recipe carries every column of its candidate, the caller as owner, the
  generated id and the defaults of the schema; a candidate whose image call failed is
  stored with the empty string as image, any other with the url.
\<close>

theorem image_failure_is_not_fatal:
  "(\<forall>error. generateRecipeImage api name description \<noteq> Inl error)
   \<and> (\<forall>error. generateRecipeImage_try api name description = Inl error \<longrightarrow>
         generateRecipeImage api name description = Inr [])
   \<and> (truthy (req_sub req) \<and> req_body req ''ingredients'' = Some (JArr (x # xs))
        \<and> storable e db (the (req_sub req)) gs 0 0 \<longrightarrow>
      (\<exists>rows. generateFromIngredientsRoute e db req (Inr gs)
                 = (Res 200 (RecipesJson rows), db\<lparr>recipes := recipes db @ rows\<rparr>)
          \<and> length rows = length gs
          \<and> (\<forall>i<length gs.
                rows ! i =
                  \<lparr>r_id = uuid e i, r_name = g_name (gs ! i),
                   r_description = Some (g_description (gs ! i)),
                   r_ingredients = g_ingredients (gs ! i),
                   r_instructions = g_instructions (gs ! i),
                   r_cookingTime = Some \<lfloor>g_cookingTime (gs ! i)\<rfloor>,
                   r_difficulty = Some (g_difficulty (gs ! i)),
                   r_cuisine = Some (g_cuisine (gs ! i)),
                   r_imageUrl =
                     Some (case generateRecipeImage_try (imageApi e i) (g_name (gs ! i))
                                  (g_description (gs ! i)) of
                             Inl error \<Rightarrow> []
                           | Inr url \<Rightarrow> url),
                   r_userId = req_sub req, r_isGenerated = Some True,
                   r_isFeatured = Some False, r_isApproved = Some True,
                   r_servings = Some \<lfloor>g_servings (gs ! i)\<rfloor>,
                   r_createdAt = clock e i, r_updatedAt = clock e i\<rparr>)))"
proof (intro conjI allI impI)
  fix error
  show "generateRecipeImage api name description \<noteq> Inl error"
    by (simp add: generateRecipeImage_total)
  assume "generateRecipeImage_try api name description = Inl error"
  then show "generateRecipeImage api name description = Inr []"
    by (simp add: generateRecipeImage_total)
next
  assume h: "truthy (req_sub req) \<and> req_body req ''ingredients'' = Some (JArr (x # xs))
        \<and> storable e db (the (req_sub req)) gs 0 0"
  then obtain u where u: "req_sub req = Some u" by (auto simp: truthy_def split: option.splits)
  let ?rows = "expectedRows e u gs 0 0"
  have route: "generateFromIngredientsRoute e db req (Inr gs)
                 = (Res 200 (RecipesJson ?rows), db\<lparr>recipes := recipes db @ ?rows\<rparr>)"
    using h u by (simp add: generateFromIngredientsRoute_def isAuthenticated_def
        saveGenerated_all_saved)
  have fields: "\<forall>i<length gs. ?rows ! i =
                  \<lparr>r_id = uuid e i, r_name = g_name (gs ! i),
                   r_description = Some (g_description (gs ! i)),
                   r_ingredients = g_ingredients (gs ! i),
                   r_instructions = g_instructions (gs ! i),
                   r_cookingTime = Some \<lfloor>g_cookingTime (gs ! i)\<rfloor>,
                   r_difficulty = Some (g_difficulty (gs ! i)),
                   r_cuisine = Some (g_cuisine (gs ! i)),
                   r_imageUrl =
                     Some (case generateRecipeImage_try (imageApi e i) (g_name (gs ! i))
                                  (g_description (gs ! i)) of
                             Inl error \<Rightarrow> []
                           | Inr url \<Rightarrow> url),
                   r_userId = req_sub req, r_isGenerated = Some True,
                   r_isFeatured = Some False, r_isApproved = Some True,
                   r_servings = Some \<lfloor>g_servings (gs ! i)\<rfloor>,
                   r_createdAt = clock e i, r_updatedAt = clock e i\<rparr>"
    by (simp add: nth_expectedRows rowOf_def imageRef_def u)
  from route fields length_expectedRows [of e u gs 0 0]
  show "\<exists>rows. generateFromIngredientsRoute e db req (Inr gs)
                 = (Res 200 (RecipesJson rows), db\<lparr>recipes := recipes db @ rows\<rparr>)
          \<and> length rows = length gs
          \<and> (\<forall>i<length gs.
                rows ! i =
                  \<lparr>r_id = uuid e i, r_name = g_name (gs ! i),
                   r_description = Some (g_description (gs ! i)),
                   r_ingredients = g_ingredients (gs ! i),
                   r_instructions = g_instructions (gs ! i),
                   r_cookingTime = Some \<lfloor>g_cookingTime (gs ! i)\<rfloor>,
                   r_difficulty = Some (g_difficulty (gs ! i)),
                   r_cuisine = Some (g_cuisine (gs ! i)),
                   r_imageUrl =
                     Some (case generateRecipeImage_try (imageApi e i) (g_name (gs ! i))
                                  (g_description (gs ! i)) of
                             Inl error \<Rightarrow> []
                           | Inr url \<Rightarrow> url),
                   r_userId = req_sub req, r_isGenerated = Some True,
                   r_isFeatured = Some False, r_isApproved = Some True,
                   r_servings = Some \<lfloor>g_servings (gs ! i)\<rfloor>,
                   r_createdAt = clock e i, r_updatedAt = clock e i\<rparr>)"
    by (intro exI [of _ ?rows] conjI)
qed

theorem image_failure_is_not_fatal_witness:
  "\<exists>rows. generateFromIngredientsRoute env1 db1 generateRequest (Inr candidates)
             = (Res 200 (RecipesJson rows), db1\<lparr>recipes := recipes db1 @ rows\<rparr>)
      \<and> length rows = 3
      \<and> r_imageUrl (rows ! 0) = Some ''https://img.example/dish.png''
      \<and> rows ! 1 =
          \<lparr>r_id = ''gx'', r_name = ''Pancakes'', r_description = Some ''Thick'',
           r_ingredients = [''egg'', ''flour''], r_instructions = [''Mix'', ''Cook''],
           r_cookingTime = Some 20, r_difficulty = Some ''easy'', r_cuisine = Some ''french'',
           r_imageUrl = Some [], r_userId = Some ''bob'', r_isGenerated = Some True,
           r_isFeatured = Some False, r_isApproved = Some True, r_servings = Some 2,
           r_createdAt = 101, r_updatedAt = 101\<rparr>
      \<and> r_imageUrl (rows ! 2) = Some ''https://img.example/dish.png''"
proof -
  have st: "storable env1 db1 ''bob'' candidates 0 0" by code_simp
  have pre: "truthy (req_sub generateRequest)
      \<and> req_body generateRequest ''ingredients'' = Some (JArr (JStr ''egg'' # [JStr ''flour'']))
      \<and> storable env1 db1 (the (req_sub generateRequest)) candidates 0 0"
    using st by (simp add: generateRequest_def mkRequest_def truthy_def)
  have len: "length candidates = 3" by (simp add: candidates_def)
  from image_failure_is_not_fatal [of "imageApi env1 0" "[]" "[]" generateRequest "JStr ''egg''"
      "[JStr ''flour'']" env1 db1 candidates] pre
  obtain rows where route: "generateFromIngredientsRoute env1 db1 generateRequest (Inr candidates)
             = (Res 200 (RecipesJson rows), db1\<lparr>recipes := recipes db1 @ rows\<rparr>)"
    and l: "length rows = length candidates"
    and f: "\<forall>i<length candidates.
                rows ! i =
                  \<lparr>r_id = uuid env1 i, r_name = g_name (candidates ! i),
                   r_description = Some (g_description (candidates ! i)),
                   r_ingredients = g_ingredients (candidates ! i),
                   r_instructions = g_instructions (candidates ! i),
                   r_cookingTime = Some \<lfloor>g_cookingTime (candidates ! i)\<rfloor>,
                   r_difficulty = Some (g_difficulty (candidates ! i)),
                   r_cuisine = Some (g_cuisine (candidates ! i)),
                   r_imageUrl =
                     Some (case generateRecipeImage_try (imageApi env1 i) (g_name (candidates ! i))
                                  (g_description (candidates ! i)) of
                             Inl error \<Rightarrow> []
                           | Inr url \<Rightarrow> url),
                   r_userId = req_sub generateRequest, r_isGenerated = Some True,
                   r_isFeatured = Some False, r_isApproved = Some True,
                   r_servings = Some \<lfloor>g_servings (candidates ! i)\<rfloor>,
                   r_createdAt = clock env1 i, r_updatedAt = clock env1 i\<rparr>"
    by (elim conjE exE impE) (assumption | rule conjI)+
  have i: "(0::nat) < length candidates" "(1::nat) < length candidates" "(2::nat) < length candidates"
    by (simp_all add: len)
  have r0: "r_imageUrl (rows ! 0) = Some ''https://img.example/dish.png''"
    using f [rule_format, OF i(1)]
    by (simp add: generateRecipeImage_try_def env1_def)
  have r1: "rows ! 1 =
          \<lparr>r_id = ''gx'', r_name = ''Pancakes'', r_description = Some ''Thick'',
           r_ingredients = [''egg'', ''flour''], r_instructions = [''Mix'', ''Cook''],
           r_cookingTime = Some 20, r_difficulty = Some ''easy'', r_cuisine = Some ''french'',
           r_imageUrl = Some [], r_userId = Some ''bob'', r_isGenerated = Some True,
           r_isFeatured = Some False, r_isApproved = Some True, r_servings = Some 2,
           r_createdAt = 101, r_updatedAt = 101\<rparr>"
    using f [rule_format, OF i(2)]
    by (simp add: generateRecipeImage_try_def env1_def candidates_def mkGenerated_def
        generateRequest_def mkRequest_def)
  have r2: "r_imageUrl (rows ! 2) = Some ''https://img.example/dish.png''"
    using f [rule_format, OF i(3)]
    by (simp add: generateRecipeImage_try_def env1_def)
  from route l len r0 r1 r2 show ?thesis by (intro exI [of _ rows]) simp
qed

end
